theory Spec2Isabelle
  imports Complex_Main "HOL-Library.Log_Nat"
begin

section \<open>Python values of the batch notifier\<close>

text \<open>
  The development embeds \<^verbatim>\<open>scripts/send_batch.py\<close>. The script is dynamically typed: a
  field of a record is whatever the JSON decoder (or a caller) produced. The value domain
  below covers the kinds of value the data model names: absent, boolean, number, text and
  a native date-time. A \<^typ>\<open>char\<close> is one code point below 256, so text is
  Latin-1 text; the classes of characters (blanks, digits, capital letters) are those of
  Python on these code points. A floating-point number is a binary64 value, given by its exact rational value; the sign
  of zero is not kept.

  Library behaviour is that of CPython 3.11 on 64-bit Linux.
\<close>

subsection \<open>Exceptions\<close>

datatype py_error =
  ValueError | TypeError | OverflowError | OSError | AttributeError | SystemExit

subsection \<open>Characters and text\<close>

definition is_digit :: "char \<Rightarrow> bool" where
  "is_digit c = (48 \<le> (of_char c :: nat) \<and> (of_char c :: nat) \<le> 57)"

definition digit_val :: "char \<Rightarrow> nat" where
  "digit_val c = (of_char c :: nat) - 48"

definition digit_char :: "nat \<Rightarrow> char" where
  "digit_char n = char_of (48 + n)"

text \<open>
  \<^verbatim>\<open>str.isspace\<close> and the pattern \<^verbatim>\<open>\s\<close>: the ASCII blanks, the four separators
  28 to 31, the next-line character 133 and the no-break space 160.
\<close>

definition is_space :: "char \<Rightarrow> bool" where
  "is_space c = ((of_char c :: nat) \<in> {9, 10, 11, 12, 13, 28, 29, 30, 31, 32, 133, 160})"

text \<open>
  The blanks that \<^verbatim>\<open>float()\<close> drops around a numeral: those of C's \<^verbatim>\<open>isspace\<close>, and
  the blanks above 127, which it first turns into spaces.
\<close>

definition is_float_space :: "char \<Rightarrow> bool" where
  "is_float_space c = ((of_char c :: nat) \<in> {9, 10, 11, 12, 13, 32, 133, 160})"

definition strip_with :: "(char \<Rightarrow> bool) \<Rightarrow> string \<Rightarrow> string" where
  "strip_with p s = rev (dropWhile p (rev (dropWhile p s)))"

definition strip :: "string \<Rightarrow> string" where
  "strip s = strip_with is_space s"

text \<open>
  \<^verbatim>\<open>str.lower\<close> on one character: the capital letters are A to Z and the code points
  192 to 222 but for the multiplication sign 215; the small letter lies 32 above.
\<close>

definition lower_char :: "char \<Rightarrow> char" where
  "lower_char c =
     (if (65 \<le> (of_char c :: nat) \<and> (of_char c :: nat) \<le> 90)
         \<or> (192 \<le> (of_char c :: nat) \<and> (of_char c :: nat) \<le> 222
            \<and> (of_char c :: nat) \<noteq> 215)
      then char_of ((of_char c :: nat) + 32) else c)"

definition lower :: "string \<Rightarrow> string" where
  "lower s = map lower_char s"

text \<open>
  \<^verbatim>\<open>str.isdigit\<close>: at least one character, all of them digits. Besides the decimal
  digits, the superscripts two, three and one (178, 179, 185) are digits.
\<close>

definition is_digit_like :: "char \<Rightarrow> bool" where
  "is_digit_like c = (is_digit c \<or> (of_char c :: nat) \<in> {178, 179, 185})"

definition isdigit :: "string \<Rightarrow> bool" where
  "isdigit s = (s \<noteq> [] \<and> list_all is_digit_like s)"

definition startswith :: "string \<Rightarrow> string \<Rightarrow> bool" where
  "startswith s p = (take (length p) s = p)"

definition endswith :: "string \<Rightarrow> string \<Rightarrow> bool" where
  "endswith s p = (length p \<le> length s \<and> drop (length s - length p) s = p)"

text \<open>\<^verbatim>\<open>sub in s\<close>: \<open>sub\<close> occurs in \<open>s\<close> as a contiguous run.\<close>

fun contains :: "string \<Rightarrow> string \<Rightarrow> bool" where
  "contains [] sub = (sub = [])"
| "contains (c # cs) sub = (startswith (c # cs) sub \<or> contains cs sub)"

text \<open>\<^verbatim>\<open>s.split(sep)\<close> for a separator of one character.\<close>

fun split_on :: "char \<Rightarrow> string \<Rightarrow> string list" where
  "split_on sep [] = [[]]"
| "split_on sep (c # cs) =
     (if c = sep then [] # split_on sep cs
      else (case split_on sep cs of
              [] \<Rightarrow> [[c]]
            | w # ws \<Rightarrow> (c # w) # ws))"

text \<open>
  \<^verbatim>\<open>s.replace(old, new)\<close> for a non-empty \<open>old\<close>: every occurrence, left to right,
  without overlaps. The first argument bounds the number of steps; \<open>replace\<close> gives it
  the length of the text, which is enough.
\<close>

fun replace_fuel :: "nat \<Rightarrow> string \<Rightarrow> string \<Rightarrow> string \<Rightarrow> string" where
  "replace_fuel 0 old new s = s"
| "replace_fuel (Suc k) old new s =
     (case s of
        [] \<Rightarrow> []
      | c # cs \<Rightarrow>
          if startswith s old then new @ replace_fuel k old new (drop (length old) s)
          else c # replace_fuel k old new cs)"

definition replace :: "string \<Rightarrow> string \<Rightarrow> string \<Rightarrow> string" where
  "replace s old new = replace_fuel (length s) old new s"

subsection \<open>Decimal numerals\<close>

fun str_of_nat :: "nat \<Rightarrow> string" where
  "str_of_nat n =
     (if n < 10 then [digit_char n] else str_of_nat (n div 10) @ [digit_char (n mod 10)])"

declare str_of_nat.simps [simp del]

definition str_of_int :: "int \<Rightarrow> string" where
  "str_of_int i = (if i < 0 then CHR ''-'' # str_of_nat (nat (- i)) else str_of_nat (nat i))"

definition nat_of_digits :: "string \<Rightarrow> nat" where
  "nat_of_digits s = foldl (\<lambda>a c. 10 * a + digit_val c) 0 s"

text \<open>A numeral padded with zeros on the left to at least \<open>w\<close> digits (\<^verbatim>\<open>%02d\<close>).\<close>

definition zero_pad :: "nat \<Rightarrow> nat \<Rightarrow> string" where
  "zero_pad w n = replicate (w - length (str_of_nat n)) CHR ''0'' @ str_of_nat n"

text \<open>
  \<^verbatim>\<open>int(s)\<close> on a text for which \<^verbatim>\<open>s.isdigit()\<close> holds. CPython refuses a numeral
  of more than 4300 digits, and a digit that is not a decimal digit, with a
  \<^verbatim>\<open>ValueError\<close>.
\<close>

definition py_int_of_digits :: "string \<Rightarrow> py_error + int" where
  "py_int_of_digits s =
     (if length s > 4300 \<or> \<not> list_all is_digit s then Inl ValueError
      else Inr (int (nat_of_digits s)))"

subsection \<open>Binary64 floating-point numbers\<close>

datatype pyfloat = Finite rat | PosInf | NegInf | NaN

definition pow_int :: "nat \<Rightarrow> int \<Rightarrow> rat" where
  "pow_int b e = (if 0 \<le> e then of_nat b ^ nat e else 1 / of_nat b ^ nat (- e))"

text \<open>The \<open>k\<close> with \<open>b ^ k \<le> q < b ^ (k + 1)\<close>, for a positive \<open>q\<close>.\<close>

definition ilog :: "nat \<Rightarrow> rat \<Rightarrow> int" where
  "ilog b q =
     (let k = int (floorlog b (nat (fst (quotient_of q))))
              - int (floorlog b (nat (snd (quotient_of q))))
      in if pow_int b k \<le> q then k else k - 1)"

definition round_half_even :: "rat \<Rightarrow> int" where
  "round_half_even q =
     (let f = \<lfloor>q\<rfloor>; r = q - of_int f
      in if r < 1 / 2 then f
         else if 1 / 2 < r then f + 1
         else if even f then f else f + 1)"

text \<open>
  The binary64 value nearest to a rational, ties to the even significand: 53 bits of
  significand, the least exponent of the last place is \<open>- 1074\<close>, and a result of
  \<open>2 ^ 1024\<close> or more is an infinity.
\<close>

definition float_round :: "rat \<Rightarrow> pyfloat" where
  "float_round q =
     (if q = 0 then Finite 0
      else
        let a = \<bar>q\<bar>;
            u = max (ilog 2 a - 52) (- 1074);
            v = of_int (round_half_even (a / pow_int 2 u)) * pow_int 2 u
        in if pow_int 2 1024 \<le> v then (if 0 < q then PosInf else NegInf)
           else Finite (if 0 < q then v else - v))"

fun float_less :: "pyfloat \<Rightarrow> pyfloat \<Rightarrow> bool" where
  "float_less NaN y = False"
| "float_less x NaN = False"
| "float_less x NegInf = False"
| "float_less PosInf y = False"
| "float_less NegInf y = True"
| "float_less x PosInf = True"
| "float_less (Finite a) (Finite b) = (a < b)"

fun float_le :: "pyfloat \<Rightarrow> pyfloat \<Rightarrow> bool" where
  "float_le NaN y = False"
| "float_le x NaN = False"
| "float_le x y = (\<not> float_less y x)"

text \<open>Division of a float by the integer 1000.\<close>

fun float_div_1000 :: "pyfloat \<Rightarrow> pyfloat" where
  "float_div_1000 (Finite q) = float_round (q / 1000)"
| "float_div_1000 x = x"

text \<open>
  \<^verbatim>\<open>n / 1000\<close> on an integer: the nearest float, or \<^verbatim>\<open>OverflowError\<close> when that is no
  finite float. \<^verbatim>\<open>float(n)\<close> behaves alike.
\<close>

definition finite_or_overflow :: "rat \<Rightarrow> py_error + pyfloat" where
  "finite_or_overflow q =
     (case float_round q of Finite v \<Rightarrow> Inr (Finite v) | _ \<Rightarrow> Inl OverflowError)"

definition int_div_1000 :: "int \<Rightarrow> py_error + pyfloat" where
  "int_div_1000 n = finite_or_overflow (of_int n / 1000)"

definition float_of_int :: "int \<Rightarrow> py_error + pyfloat" where
  "float_of_int n = finite_or_overflow (of_int n)"

subsubsection \<open>Printing a float\<close>

text \<open>
  \<^verbatim>\<open>repr\<close> of a float prints the shortest decimal numeral that reads back as the same
  float, the one nearest to it when there are several; 17 digits always do. It is
  written with an exponent when the decimal point would lie more than 16 places right
  of the first digit or 4 or more places left of it.
\<close>

definition digits_candidate :: "rat \<Rightarrow> int \<Rightarrow> nat \<Rightarrow> int option" where
  "digits_candidate q e10 k =
     (let s = pow_int 10 (e10 - int k + 1);
          lo = \<lfloor>q / s\<rfloor>;
          hi = lo + 1;
          oklo = (float_round (of_int lo * s) = Finite q);
          okhi = (float_round (of_int hi * s) = Finite q)
      in if oklo \<and> okhi
         then (if q - of_int lo * s \<le> of_int hi * s - q then Some lo else Some hi)
         else if oklo then Some lo
         else if okhi then Some hi
         else None)"

fun shortest_digits :: "nat \<Rightarrow> rat \<Rightarrow> int \<Rightarrow> nat \<Rightarrow> int \<times> nat" where
  "shortest_digits 0 q e10 k = (\<lfloor>q / pow_int 10 (e10 - int k + 1)\<rfloor>, k)"
| "shortest_digits (Suc n) q e10 k =
     (case digits_candidate q e10 k of
        Some d \<Rightarrow> (d, k)
      | None \<Rightarrow> shortest_digits n q e10 (Suc k))"

definition float_repr_pos :: "rat \<Rightarrow> string" where
  "float_repr_pos q =
     (let e10 = ilog 10 q;
          dk = shortest_digits 17 q e10 1;
          every = str_of_nat (nat (fst dk));
          ds = rev (dropWhile (\<lambda>c. c = CHR ''0'') (rev every));
          n = int (length ds);
          decpt = e10 + 1 + (int (length every) - int (snd dk))
      in if decpt \<le> - 4 \<or> 16 < decpt
         then take 1 ds @ (if 1 < n then CHR ''.'' # drop 1 ds else [])
              @ ''e'' @ (if decpt - 1 < 0 then ''-'' else ''+'')
              @ zero_pad 2 (nat \<bar>decpt - 1\<bar>)
         else if decpt \<le> 0 then ''0.'' @ replicate (nat (- decpt)) CHR ''0'' @ ds
         else if n \<le> decpt then ds @ replicate (nat (decpt - n)) CHR ''0'' @ ''.0''
         else take (nat decpt) ds @ ''.'' @ drop (nat decpt) ds)"

fun float_repr :: "pyfloat \<Rightarrow> string" where
  "float_repr (Finite q) =
     (if q = 0 then ''0.0''
      else if q < 0 then CHR ''-'' # float_repr_pos (- q)
      else float_repr_pos q)"
| "float_repr PosInf = ''inf''"
| "float_repr NegInf = ''-inf''"
| "float_repr NaN = ''nan''"

subsubsection \<open>Reading a float\<close>

text \<open>
  \<^verbatim>\<open>float(s)\<close> on text: blanks around the numeral are dropped, a sign may lead,
  \<^verbatim>\<open>inf\<close>, \<^verbatim>\<open>infinity\<close> and \<^verbatim>\<open>nan\<close> are read in any case, and a numeral has
  digits (single underscores may stand between two digits), at most one point and an
  optional exponent. Anything else is a \<^verbatim>\<open>ValueError\<close>.
\<close>

fun take_more_digits :: "string \<Rightarrow> string \<times> string" where
  "take_more_digits [] = ([], [])"
| "take_more_digits [c] = (if is_digit c then ([c], []) else ([], [c]))"
| "take_more_digits (c # d # cs) =
     (if is_digit c then (c # fst (take_more_digits (d # cs)), snd (take_more_digits (d # cs)))
      else if c = CHR ''_'' \<and> is_digit d
           then (d # fst (take_more_digits cs), snd (take_more_digits cs))
      else ([], c # d # cs))"

definition take_digitpart :: "string \<Rightarrow> (string \<times> string) option" where
  "take_digitpart s =
     (case s of
        [] \<Rightarrow> None
      | c # cs \<Rightarrow>
          if is_digit c then Some (c # fst (take_more_digits cs), snd (take_more_digits cs))
          else None)"

text \<open>The digits before the point, the digits after it, and the rest of the text.\<close>

definition parse_mantissa :: "string \<Rightarrow> (string \<times> string \<times> string) option" where
  "parse_mantissa s =
     (case take_digitpart s of
        Some (ip, r) \<Rightarrow>
          (case r of
             [] \<Rightarrow> Some (ip, [], [])
           | c # r' \<Rightarrow>
               if c = CHR ''.''
               then (case take_digitpart r' of
                       Some (fp, r'') \<Rightarrow> Some (ip, fp, r'')
                     | None \<Rightarrow> Some (ip, [], r'))
               else Some (ip, [], r))
      | None \<Rightarrow>
          (case s of
             [] \<Rightarrow> None
           | c # r' \<Rightarrow>
               if c = CHR ''.''
               then (case take_digitpart r' of
                       Some (fp, r'') \<Rightarrow> Some ([], fp, r'')
                     | None \<Rightarrow> None)
               else None))"

text \<open>The exponent part, which must end the text; no exponent is the exponent 0.\<close>

definition parse_exponent :: "string \<Rightarrow> int option" where
  "parse_exponent s =
     (case s of
        [] \<Rightarrow> Some 0
      | c # r \<Rightarrow>
          if c = CHR ''e'' \<or> c = CHR ''E''
          then (let neg = (take 1 r = ''-'');
                    r' = (if take 1 r = ''-'' \<or> take 1 r = ''+'' then drop 1 r else r)
                in case take_digitpart r' of
                     Some (ds, []) \<Rightarrow>
                       Some (if neg then - int (nat_of_digits ds) else int (nat_of_digits ds))
                   | _ \<Rightarrow> None)
          else None)"

definition parse_float_abs :: "string \<Rightarrow> rat option" where
  "parse_float_abs s =
     (case parse_mantissa s of
        None \<Rightarrow> None
      | Some (ip, fp, r) \<Rightarrow>
          (case parse_exponent r of
             None \<Rightarrow> None
           | Some e \<Rightarrow>
               Some (of_nat (nat_of_digits (ip @ fp)) * pow_int 10 (e - int (length fp)))))"

definition float_of_string :: "string \<Rightarrow> py_error + pyfloat" where
  "float_of_string s =
     (let t = strip_with is_float_space s;
          neg = (take 1 t = ''-'');
          body = (if take 1 t = ''-'' \<or> take 1 t = ''+'' then drop 1 t else t)
      in if lower body = ''inf'' \<or> lower body = ''infinity''
         then Inr (if neg then NegInf else PosInf)
         else if lower body = ''nan'' then Inr NaN
         else (case parse_float_abs body of
                 None \<Rightarrow> Inl ValueError
               | Some q \<Rightarrow> Inr (float_round (if neg then - q else q))))"

subsection \<open>Calendar dates\<close>

datatype date = Date (year: nat) (month: nat) (day: nat)

definition is_leap :: "nat \<Rightarrow> bool" where
  "is_leap y = (y mod 4 = 0 \<and> (y mod 100 \<noteq> 0 \<or> y mod 400 = 0))"

definition days_in_month :: "nat \<Rightarrow> nat \<Rightarrow> nat" where
  "days_in_month y m =
     (if m = 2 then (if is_leap y then 29 else 28)
      else if m = 4 \<or> m = 6 \<or> m = 9 \<or> m = 11 then 30 else 31)"

text \<open>The dates \<^verbatim>\<open>datetime.date(y, m, d)\<close> accepts; any other is a \<^verbatim>\<open>ValueError\<close>.\<close>

definition valid_date :: "nat \<Rightarrow> nat \<Rightarrow> nat \<Rightarrow> bool" where
  "valid_date y m d =
     (1 \<le> y \<and> y \<le> 9999 \<and> 1 \<le> m \<and> m \<le> 12 \<and> 1 \<le> d \<and> d \<le> days_in_month y m)"

definition date_less :: "date \<Rightarrow> date \<Rightarrow> bool" where
  "date_less a b =
     (year a < year b \<or> (year a = year b \<and>
        (month a < month b \<or> (month a = month b \<and> day a < day b))))"

definition date_le :: "date \<Rightarrow> date \<Rightarrow> bool" where
  "date_le a b = (a = b \<or> date_less a b)"

text \<open>
  Year, month and day of the day that lies \<open>z\<close> days after 1970-01-01 in the proleptic
  Gregorian calendar.
\<close>

definition civil_from_days :: "int \<Rightarrow> int \<times> int \<times> int" where
  "civil_from_days z =
     (let z' = z + 719468;
          era = z' div 146097;
          doe = z' mod 146097;
          yoe = (doe - doe div 1460 + doe div 36524 - doe div 146096) div 365;
          doy = doe - (365 * yoe + yoe div 4 - yoe div 100);
          mp = (5 * doy + 2) div 153;
          d = doy - (153 * mp + 2) div 5 + 1;
          m = (if mp < 10 then mp + 3 else mp - 9);
          y = yoe + era * 400 + (if m \<le> 2 then 1 else 0)
      in (y, m, d))"

subsection \<open>Values\<close>

datatype pyval =
  PNone
| PBool bool
| PInt int
| PFloat pyfloat
| PStr string
| PDateTime date nat nat nat

text \<open>Truth value of a value (\<^verbatim>\<open>if value\<close>, \<^verbatim>\<open>not value\<close>, \<^verbatim>\<open>a or b\<close>).\<close>

fun truthy :: "pyval \<Rightarrow> bool" where
  "truthy PNone = False"
| "truthy (PBool b) = b"
| "truthy (PInt n) = (n \<noteq> 0)"
| "truthy (PFloat x) = (x \<noteq> Finite 0)"
| "truthy (PStr s) = (s \<noteq> [])"
| "truthy (PDateTime d h mi s) = True"

definition py_or :: "pyval \<Rightarrow> pyval \<Rightarrow> pyval" where
  "py_or a b = (if truthy a then a else b)"

fun py_str :: "pyval \<Rightarrow> string" where
  "py_str PNone = ''None''"
| "py_str (PBool b) = (if b then ''True'' else ''False'')"
| "py_str (PInt n) = str_of_int n"
| "py_str (PFloat x) = float_repr x"
| "py_str (PStr s) = s"
| "py_str (PDateTime d h mi s) =
     zero_pad 4 (year d) @ ''-'' @ zero_pad 2 (month d) @ ''-'' @ zero_pad 2 (day d)
     @ '' '' @ zero_pad 2 h @ '':'' @ zero_pad 2 mi @ '':'' @ zero_pad 2 s"

text \<open>\<^verbatim>\<open>float(v)\<close>.\<close>

fun py_float :: "pyval \<Rightarrow> py_error + pyfloat" where
  "py_float PNone = Inl TypeError"
| "py_float (PBool b) = Inr (Finite (if b then 1 else 0))"
| "py_float (PInt n) = float_of_int n"
| "py_float (PFloat x) = Inr x"
| "py_float (PStr s) = float_of_string s"
| "py_float (PDateTime d h mi s) = Inl TypeError"

subsection \<open>Unix timestamps\<close>

text \<open>
  \<^verbatim>\<open>datetime.fromtimestamp(t).date()\<close> gives the date in the local time zone. The zone
  is a parameter \<open>tz\<close>: the offset from UTC, in seconds, in force at an instant. A
  timestamp outside the 64-bit \<^verbatim>\<open>time_t\<close> is an \<^verbatim>\<open>OverflowError\<close>; within it, a
  year the C library cannot hold is an \<^verbatim>\<open>OSError\<close>, and a year outside 1 to 9999 a
  \<^verbatim>\<open>ValueError\<close>. The conversion also looks one day back to detect a repeated hour,
  so the first day of year 1 is a \<^verbatim>\<open>ValueError\<close> too.
\<close>

definition local_civil :: "(int \<Rightarrow> int) \<Rightarrow> int \<Rightarrow> int \<times> int \<times> int" where
  "local_civil tz t = civil_from_days ((t + tz t) div 86400)"

definition fromtimestamp_secs :: "(int \<Rightarrow> int) \<Rightarrow> int \<Rightarrow> py_error + date" where
  "fromtimestamp_secs tz t =
     (if t < - (2 ^ 63) \<or> 2 ^ 63 \<le> t then Inl OverflowError
      else
        (case local_civil tz t of
           (y, m, d) \<Rightarrow>
             if y - 1900 < - (2 ^ 31) \<or> 2 ^ 31 \<le> y - 1900 then Inl OSError
             else if y < 1 \<or> 9999 < y then Inl ValueError
             else if fst (local_civil tz (t - 86400)) < 1 then Inl ValueError
             else Inr (Date (nat y) (nat m) (nat d))))"

text \<open>
  A float timestamp is rounded to microseconds, ties to even, before it is split into
  seconds and microseconds; only the seconds decide the date.
\<close>

definition float_seconds :: "rat \<Rightarrow> int" where
  "float_seconds q =
     (let ip = (if 0 \<le> q then \<lfloor>q\<rfloor> else - \<lfloor>- q\<rfloor>);
          us = round_half_even ((q - of_int ip) * 1000000)
      in if 1000000 \<le> us then ip + 1 else if us < 0 then ip - 1 else ip)"

fun fromtimestamp :: "(int \<Rightarrow> int) \<Rightarrow> pyfloat \<Rightarrow> py_error + date" where
  "fromtimestamp tz (Finite q) = fromtimestamp_secs tz (float_seconds q)"
| "fromtimestamp tz NaN = Inl ValueError"
| "fromtimestamp tz PosInf = Inl OverflowError"
| "fromtimestamp tz NegInf = Inl OverflowError"

subsection \<open>Reading a date in a given format\<close>

text \<open>
  \<^verbatim>\<open>datetime.strptime(s, fmt)\<close> turns the format into a regular expression, matches it
  at the start of the text ignoring case, and fails when the match leaves text over.
  A directive is a choice between alternatives that the matcher tries in order:
  \<^verbatim>\<open>%Y\<close> is \<^verbatim>\<open>\d\d\d\d\<close>, \<^verbatim>\<open>%m\<close> is \<^verbatim>\<open>1[0-2]|0[1-9]|[1-9]\<close>,
  \<^verbatim>\<open>%d\<close> is \<^verbatim>\<open>3[0-1]|[1-2]\d|0[1-9]|[1-9]| [1-9]\<close>,
  \<^verbatim>\<open>%H\<close> is \<^verbatim>\<open>2[0-3]|[0-1]\d|\d\<close>, \<^verbatim>\<open>%M\<close> is \<^verbatim>\<open>[0-5]\d|\d\<close>,
  \<^verbatim>\<open>%S\<close> is \<^verbatim>\<open>6[0-1]|[0-5]\d|\d\<close>, and a blank of the format is \<^verbatim>\<open>\s+\<close>.
  A matcher returns the ways to match a prefix of the text, in the order in which a
  backtracking matcher finds them, each with the remaining text; the first way to match
  the whole expression is the match.
\<close>

definition char_in :: "char \<Rightarrow> char \<Rightarrow> char \<Rightarrow> bool" where
  "char_in lo hi c = ((of_char lo :: nat) \<le> of_char c \<and> (of_char c :: nat) \<le> of_char hi)"

definition alt1 :: "(char \<Rightarrow> bool) \<Rightarrow> string \<Rightarrow> (nat \<times> string) list" where
  "alt1 p s = (case s of a # r \<Rightarrow> if p a then [(digit_val a, r)] else [] | _ \<Rightarrow> [])"

definition alt2 :: "(char \<Rightarrow> bool) \<Rightarrow> (char \<Rightarrow> bool) \<Rightarrow> string \<Rightarrow> (nat \<times> string) list" where
  "alt2 p q s =
     (case s of
        a # b # r \<Rightarrow> if p a \<and> q b then [(10 * digit_val a + digit_val b, r)] else []
      | _ \<Rightarrow> [])"

text \<open>A blank followed by a digit, the last alternative of \<^verbatim>\<open>%d\<close>.\<close>

definition alt_blank :: "(char \<Rightarrow> bool) \<Rightarrow> string \<Rightarrow> (nat \<times> string) list" where
  "alt_blank q s =
     (case s of
        a # b # r \<Rightarrow> if a = CHR '' '' \<and> q b then [(digit_val b, r)] else []
      | _ \<Rightarrow> [])"

definition year_digits :: "string \<Rightarrow> (nat \<times> string) list" where
  "year_digits s =
     (if 4 \<le> length s \<and> list_all is_digit (take 4 s)
      then [(nat_of_digits (take 4 s), drop 4 s)] else [])"

fun directive :: "char \<Rightarrow> string \<Rightarrow> (nat \<times> string) list" where
  "directive c s =
     (if c = CHR ''Y'' then year_digits s
      else if c = CHR ''m'' then
        alt2 (char_in CHR ''1'' CHR ''1'') (char_in CHR ''0'' CHR ''2'') s
        @ alt2 (char_in CHR ''0'' CHR ''0'') (char_in CHR ''1'' CHR ''9'') s
        @ alt1 (char_in CHR ''1'' CHR ''9'') s
      else if c = CHR ''d'' then
        alt2 (char_in CHR ''3'' CHR ''3'') (char_in CHR ''0'' CHR ''1'') s
        @ alt2 (char_in CHR ''1'' CHR ''2'') is_digit s
        @ alt2 (char_in CHR ''0'' CHR ''0'') (char_in CHR ''1'' CHR ''9'') s
        @ alt1 (char_in CHR ''1'' CHR ''9'') s
        @ alt_blank (char_in CHR ''1'' CHR ''9'') s
      else if c = CHR ''H'' then
        alt2 (char_in CHR ''2'' CHR ''2'') (char_in CHR ''0'' CHR ''3'') s
        @ alt2 (char_in CHR ''0'' CHR ''1'') is_digit s
        @ alt1 is_digit s
      else if c = CHR ''M'' then
        alt2 (char_in CHR ''0'' CHR ''5'') is_digit s
        @ alt1 is_digit s
      else if c = CHR ''S'' then
        alt2 (char_in CHR ''6'' CHR ''6'') (char_in CHR ''0'' CHR ''1'') s
        @ alt2 (char_in CHR ''0'' CHR ''5'') is_digit s
        @ alt1 is_digit s
      else [])"

declare directive.simps [simp del]

datatype fmt_item = Directive char | Literal char | Blanks

text \<open>The formats of the script hold single blanks only, so each blank is one \<^verbatim>\<open>\s+\<close>.\<close>

fun compile_format :: "string \<Rightarrow> fmt_item list" where
  "compile_format [] = []"
| "compile_format [c] = [if is_space c then Blanks else Literal c]"
| "compile_format (c # d # r) =
     (if c = CHR ''%'' then Directive d # compile_format r
      else (if is_space c then Blanks else Literal c) # compile_format (d # r))"

text \<open>
  What one item matches: the values it found (the directive with its number) and the
  remaining text. \<^verbatim>\<open>\s+\<close> is greedy: the longest run of blanks first.
\<close>

fun match_item :: "fmt_item \<Rightarrow> string \<Rightarrow> ((char \<times> nat) list \<times> string) list" where
  "match_item (Directive c) s = map (\<lambda>(v, r). ([(c, v)], r)) (directive c s)"
| "match_item (Literal c) s =
     (case s of
        a # r \<Rightarrow> if lower_char a = lower_char c then [([], r)] else []
      | [] \<Rightarrow> [])"
| "match_item Blanks s =
     map (\<lambda>k. ([], drop k s)) (rev [1 ..< Suc (length (takeWhile is_space s))])"

fun match_items :: "fmt_item list \<Rightarrow> string \<Rightarrow> ((char \<times> nat) list \<times> string) list" where
  "match_items [] s = [([], s)]"
| "match_items (it # its) s =
     concat (map (\<lambda>(vs, r). map (\<lambda>(ws, r'). (vs @ ws, r')) (match_items its r))
                 (match_item it s))"

definition found :: "(char \<times> nat) list \<Rightarrow> char \<Rightarrow> nat \<Rightarrow> nat" where
  "found vs c dflt = (case map_of vs c of Some v \<Rightarrow> v | None \<Rightarrow> dflt)"

text \<open>
  \<^verbatim>\<open>datetime.strptime(s, fmt).date()\<close>. A field the format does not hold has its
  default (year 1900, month 1, day 1, time 0). The date must exist and the seconds must
  be below 60, or the construction of the result is a \<^verbatim>\<open>ValueError\<close>.
\<close>

definition strptime_date :: "string \<Rightarrow> string \<Rightarrow> py_error + date" where
  "strptime_date s fmt =
     (case match_items (compile_format fmt) s of
        [] \<Rightarrow> Inl ValueError
      | (vs, r) # _ \<Rightarrow>
          if r \<noteq> [] then Inl ValueError
          else if \<not> valid_date (found vs CHR ''Y'' 1900) (found vs CHR ''m'' 1)
                                 (found vs CHR ''d'' 1)
               \<or> 59 < found vs CHR ''S'' 0
          then Inl ValueError
          else Inr (Date (found vs CHR ''Y'' 1900) (found vs CHR ''m'' 1)
                         (found vs CHR ''d'' 1)))"

text \<open>\<^verbatim>\<open>re.search(r'(\d{4}-\d{2}-\d{2})', s)\<close>: the leftmost match, if any.\<close>

definition iso_at :: "string \<Rightarrow> bool" where
  "iso_at s =
     (10 \<le> length s
      \<and> list_all is_digit (take 4 s) \<and> s ! 4 = CHR ''-''
      \<and> list_all is_digit (take 2 (drop 5 s)) \<and> s ! 7 = CHR ''-''
      \<and> list_all is_digit (take 2 (drop 8 s)))"

fun search_iso :: "string \<Rightarrow> string option" where
  "search_iso [] = None"
| "search_iso (c # cs) = (if iso_at (c # cs) then Some (take 10 (c # cs)) else search_iso cs)"

section \<open>Date normalizer\<close>

text \<open>The list \<^verbatim>\<open>date_formats\<close> of \<^verbatim>\<open>parse_date_value\<close>, in its order.\<close>

definition date_formats :: "string list" where
  "date_formats =
     [''%Y-%m-%d'', ''%d/%m/%Y'', ''%d-%m-%Y'', ''%Y-%m-%d %H:%M:%S'',
      ''%d/%m/%Y %H:%M:%S'', ''%Y-%m-%dT%H:%M:%S'', ''%Y-%m-%dT%H:%M:%SZ'']"

text \<open>The loop over the formats: the first format that reads the text decides.\<close>

fun try_formats :: "string list \<Rightarrow> string \<Rightarrow> py_error + date option" where
  "try_formats [] s = Inr None"
| "try_formats (f # fs) s =
     (case strptime_date s f of
        Inr d \<Rightarrow> Inr (Some d)
      | Inl e \<Rightarrow> if e = ValueError then try_formats fs s else Inl e)"

text \<open>
  The timestamp of an integer: above \<^verbatim>\<open>1e10\<close> it counts milliseconds and is divided
  by 1000, which makes it a float.
\<close>

definition timestamp_date_int :: "(int \<Rightarrow> int) \<Rightarrow> int \<Rightarrow> py_error + date" where
  "timestamp_date_int tz n =
     (if 10000000000 < n
      then (case int_div_1000 n of Inl e \<Rightarrow> Inl e | Inr f \<Rightarrow> fromtimestamp tz f)
      else fromtimestamp_secs tz n)"

definition timestamp_date_float :: "(int \<Rightarrow> int) \<Rightarrow> pyfloat \<Rightarrow> py_error + date" where
  "timestamp_date_float tz x =
     (if float_less (Finite 10000000000) x then fromtimestamp tz (float_div_1000 x)
      else fromtimestamp tz x)"

text \<open>The handler \<^verbatim>\<open>except (ValueError, OSError): pass\<close> of both timestamp branches.\<close>

definition passes :: "py_error \<Rightarrow> bool" where
  "passes e = (e = ValueError \<or> e = OSError)"

text \<open>
  Lines 104 to 131 of the script: the formats, then an ISO date anywhere in the text.
\<close>

definition parse_date_formats :: "string \<Rightarrow> py_error + date option" where
  "parse_date_formats date_str =
     (case try_formats date_formats date_str of
        Inl e \<Rightarrow> Inl e
      | Inr (Some d) \<Rightarrow> Inr (Some d)
      | Inr None \<Rightarrow>
          (case search_iso date_str of
             None \<Rightarrow> Inr None
           | Some m \<Rightarrow>
               (case strptime_date m ''%Y-%m-%d'' of
                  Inr d \<Rightarrow> Inr (Some d)
                | Inl e \<Rightarrow> if e = ValueError then Inr None else Inl e)))"

text \<open>
  Lines 89 to 131 of the script: the text of the value, stripped; a numeral is tried as a
  timestamp first.
\<close>

definition parse_date_text :: "(int \<Rightarrow> int) \<Rightarrow> string \<Rightarrow> py_error + date option" where
  "parse_date_text tz text =
     (let date_str = strip text
      in if date_str = [] then Inr None
         else
           (case (if isdigit date_str
                  then (case py_int_of_digits date_str of
                          Inl e \<Rightarrow> Inl e
                        | Inr n \<Rightarrow> timestamp_date_int tz n)
                  else Inl ValueError) of
              Inr d \<Rightarrow> Inr (Some d)
            | Inl e \<Rightarrow> if passes e then parse_date_formats date_str else Inl e))"

text \<open>
  \<^verbatim>\<open>parse_date_value\<close>: \<open>Inr None\<close> is the result \<^verbatim>\<open>None\<close>, \<open>Inl e\<close> an exception that
  leaves the function.
\<close>

definition parse_date_value :: "(int \<Rightarrow> int) \<Rightarrow> pyval \<Rightarrow> py_error + date option" where
  "parse_date_value tz v =
     (if \<not> truthy v then Inr None
      else
        (case v of
           PDateTime d h mi s \<Rightarrow> Inr (Some d)
         | PInt n \<Rightarrow>
             (case timestamp_date_int tz n of
                Inr d \<Rightarrow> Inr (Some d)
              | Inl e \<Rightarrow> if passes e then parse_date_text tz (py_str v) else Inl e)
         | PBool b \<Rightarrow>
             (case timestamp_date_int tz (if b then 1 else 0) of
                Inr d \<Rightarrow> Inr (Some d)
              | Inl e \<Rightarrow> if passes e then parse_date_text tz (py_str v) else Inl e)
         | PFloat x \<Rightarrow>
             (case timestamp_date_float tz x of
                Inr d \<Rightarrow> Inr (Some d)
              | Inl e \<Rightarrow> if passes e then parse_date_text tz (py_str v) else Inl e)
         | _ \<Rightarrow> parse_date_text tz (py_str v)))"

text \<open>\<^verbatim>\<open>d.strftime('%d/%m/%Y')\<close>; the C library prints the year without padding.\<close>

definition strftime_dmy :: "date \<Rightarrow> string" where
  "strftime_dmy d = zero_pad 2 (day d) @ ''/'' @ zero_pad 2 (month d) @ ''/'' @ str_of_nat (year d)"

definition format_date_french :: "(int \<Rightarrow> int) \<Rightarrow> pyval \<Rightarrow> py_error + string" where
  "format_date_french tz v =
     (if \<not> truthy v then Inr []
      else
        (case parse_date_value tz v of
           Inl e \<Rightarrow> Inl e
         | Inr (Some d) \<Rightarrow> Inr (strftime_dmy d)
         | Inr None \<Rightarrow>
             (case v of
                PStr s \<Rightarrow>
                  if CHR ''-'' \<in> set s
                  then (case strptime_date (take 10 s) ''%Y-%m-%d'' of
                          Inr d \<Rightarrow> Inr (strftime_dmy d)
                        | Inl e \<Rightarrow> if e = ValueError then Inr (py_str v) else Inl e)
                  else Inr (py_str v)
              | _ \<Rightarrow> Inr (py_str v))))"

section \<open>Filter evaluator\<close>

text \<open>The handler \<^verbatim>\<open>except (ValueError, TypeError)\<close> of both filter functions.\<close>

definition caught :: "py_error \<Rightarrow> bool" where
  "caught e = (e = ValueError \<or> e = TypeError)"

text \<open>\<^verbatim>\<open>datetime.strptime(filter_value, '%Y-%m-%d').date()\<close>; only text can be read.\<close>

definition operand_date :: "pyval \<Rightarrow> py_error + date" where
  "operand_date v = (case v of PStr s \<Rightarrow> strptime_date s ''%Y-%m-%d'' | _ \<Rightarrow> Inl TypeError)"

text \<open>
  The comparisons of \<^verbatim>\<open>check_date_filter\<close>, once the date of the field is known:
  the part of the \<^verbatim>\<open>try\<close> block after \<^verbatim>\<open>field_date\<close>, and the final
  \<^verbatim>\<open>return False\<close> for any other operator.
\<close>

definition date_comparison :: "date \<Rightarrow> string \<Rightarrow> pyval \<Rightarrow> py_error + bool" where
  "date_comparison field_date operator filter_value =
     (if operator = ''date_before''
      then (case operand_date filter_value of
              Inl e \<Rightarrow> Inl e | Inr c \<Rightarrow> Inr (date_less field_date c))
      else if operator = ''date_after''
      then (case operand_date filter_value of
              Inl e \<Rightarrow> Inl e | Inr c \<Rightarrow> Inr (date_less c field_date))
      else if operator = ''date_on''
      then (case operand_date filter_value of
              Inl e \<Rightarrow> Inl e | Inr c \<Rightarrow> Inr (field_date = c))
      else if operator = ''date_between''
      then (case filter_value of
              PStr s \<Rightarrow>
                if CHR ''|'' \<notin> set s then Inr False
                else
                  (case split_on CHR ''|'' s of
                     [a, b] \<Rightarrow>
                       (case strptime_date a ''%Y-%m-%d'' of
                          Inl e \<Rightarrow> Inl e
                        | Inr start_date \<Rightarrow>
                            (case strptime_date b ''%Y-%m-%d'' of
                               Inl e \<Rightarrow> Inl e
                             | Inr end_date \<Rightarrow>
                                 Inr (date_le start_date field_date
                                      \<and> date_le field_date end_date)))
                   | _ \<Rightarrow> Inr False)
            | _ \<Rightarrow> Inl TypeError)
      else Inr False)"

definition check_date_filter :: "(int \<Rightarrow> int) \<Rightarrow> pyval \<Rightarrow> string \<Rightarrow> pyval \<Rightarrow> py_error + bool" where
  "check_date_filter tz field_value operator filter_value =
     (if \<not> truthy filter_value then Inr True
      else
        (case parse_date_value tz field_value of
           Inl e \<Rightarrow> if caught e then Inr False else Inl e
         | Inr None \<Rightarrow> Inr False
         | Inr (Some field_date) \<Rightarrow>
             (case date_comparison field_date operator filter_value of
                Inl e \<Rightarrow> if caught e then Inr False else Inl e
              | Inr b \<Rightarrow> Inr b)))"

text \<open>
  \<^verbatim>\<open>float(field_value or 0) <cmp> float(value or 0)\<close> inside its \<^verbatim>\<open>try\<close>: the left
  side is converted first.
\<close>

definition num_compare ::
  "(pyfloat \<Rightarrow> pyfloat \<Rightarrow> bool) \<Rightarrow> pyval \<Rightarrow> pyval \<Rightarrow> py_error + bool" where
  "num_compare cmp field_value v =
     (case py_float (py_or field_value (PInt 0)) of
        Inl e \<Rightarrow> if caught e then Inr False else Inl e
      | Inr a \<Rightarrow>
          (case py_float (py_or v (PInt 0)) of
             Inl e \<Rightarrow> if caught e then Inr False else Inl e
           | Inr b \<Rightarrow> Inr (cmp a b)))"

definition test_filter :: "pyval \<Rightarrow> string \<Rightarrow> pyval \<Rightarrow> py_error + bool" where
  "test_filter field_value operator v =
     (if operator = ''empty''
      then Inr (field_value = PNone \<or> strip (py_str field_value) = [])
      else if operator = ''not_empty''
      then Inr (field_value \<noteq> PNone \<and> strip (py_str field_value) \<noteq> [])
      else if \<not> truthy v then Inr True
      else
        let field_str = (if field_value \<noteq> PNone then lower (py_str field_value) else []);
            value_str = (if truthy v then lower (py_str v) else [])
        in if operator = ''equals'' then Inr (field_str = value_str)
           else if operator = ''not_equals'' then Inr (field_str \<noteq> value_str)
           else if operator = ''contains'' then Inr (contains field_str value_str)
           else if operator = ''not_contains'' then Inr (\<not> contains field_str value_str)
           else if operator = ''starts_with'' then Inr (startswith field_str value_str)
           else if operator = ''ends_with'' then Inr (endswith field_str value_str)
           else if operator = ''greater_than''
           then num_compare (\<lambda>a b. float_less b a) field_value v
           else if operator = ''less_than''
           then num_compare (\<lambda>a b. float_less a b) field_value v
           else if operator = ''greater_equal''
           then num_compare (\<lambda>a b. float_le b a) field_value v
           else if operator = ''less_equal''
           then num_compare (\<lambda>a b. float_le a b) field_value v
           else Inr True)"

section \<open>Record selector\<close>

record filter_config =
  fc_column :: string
  fc_operator :: string
  fc_value :: pyval

text \<open>
  A record of the table: its identifier and its fields, a dictionary in the order of
  its items.
\<close>

record grist_record =
  rec_id :: int
  rec_fields :: "(string \<times> pyval) list"

text \<open>\<^verbatim>\<open>fields.get(key)\<close> and \<^verbatim>\<open>fields.get(key, default)\<close>.\<close>

definition get_default :: "(string \<times> pyval) list \<Rightarrow> string \<Rightarrow> pyval \<Rightarrow> pyval" where
  "get_default fs k dflt = (case map_of fs k of None \<Rightarrow> dflt | Some v \<Rightarrow> v)"

definition get_field :: "(string \<times> pyval) list \<Rightarrow> string \<Rightarrow> pyval" where
  "get_field fs k = get_default fs k PNone"

text \<open>The evaluation of one filter on the fields of a record (the body of the inner loop).\<close>

definition filter_result ::
  "(int \<Rightarrow> int) \<Rightarrow> (string \<times> pyval) list \<Rightarrow> filter_config \<Rightarrow> py_error + bool" where
  "filter_result tz fs fc =
     (let field_value = get_field fs (fc_column fc)
      in if startswith (fc_operator fc) ''date_''
         then check_date_filter tz field_value (fc_operator fc) (fc_value fc)
         else test_filter field_value (fc_operator fc) (fc_value fc))"

text \<open>The inner loop: the results of all filters, in order, unless one raises.\<close>

fun filter_results ::
  "(int \<Rightarrow> int) \<Rightarrow> (string \<times> pyval) list \<Rightarrow> filter_config list \<Rightarrow> py_error + bool list" where
  "filter_results tz fs [] = Inr []"
| "filter_results tz fs (fc # fcs) =
     (case filter_result tz fs fc of
        Inl e \<Rightarrow> Inl e
      | Inr b \<Rightarrow>
          (case filter_results tz fs fcs of
             Inl e \<Rightarrow> Inl e
           | Inr bs \<Rightarrow> Inr (b # bs)))"

text \<open>\<^verbatim>\<open>any(results)\<close> for the logic \<^verbatim>\<open>'OR'\<close>, \<^verbatim>\<open>all(results)\<close> for any other.\<close>

definition combine :: "string \<Rightarrow> bool list \<Rightarrow> bool" where
  "combine filter_logic results =
     (if filter_logic = ''OR'' then list_ex (\<lambda>b. b) results else list_all (\<lambda>b. b) results)"

fun filter_loop ::
  "(int \<Rightarrow> int) \<Rightarrow> grist_record list \<Rightarrow> filter_config list \<Rightarrow> string
   \<Rightarrow> py_error + grist_record list" where
  "filter_loop tz [] filters filter_logic = Inr []"
| "filter_loop tz (r # rs) filters filter_logic =
     (case filter_results tz (rec_fields r) filters of
        Inl e \<Rightarrow> Inl e
      | Inr results \<Rightarrow>
          (case filter_loop tz rs filters filter_logic of
             Inl e \<Rightarrow> Inl e
           | Inr kept \<Rightarrow> Inr (if combine filter_logic results then r # kept else kept)))"

definition apply_filters ::
  "(int \<Rightarrow> int) \<Rightarrow> grist_record list \<Rightarrow> filter_config list \<Rightarrow> string
   \<Rightarrow> py_error + grist_record list" where
  "apply_filters tz records filters filter_logic =
     (if filters = [] then Inr records else filter_loop tz records filters filter_logic)"

text \<open>
  The second loop of \<^verbatim>\<open>get_records_to_process\<close>: a record needs a \<^verbatim>\<open>dossier_id\<close>;
  with \<^verbatim>\<open>force_send\<close> that is enough, without it the record must not be marked
  \<^verbatim>\<open>'success'\<close> already.
\<close>

fun send_gate :: "bool \<Rightarrow> grist_record list \<Rightarrow> grist_record list" where
  "send_gate force_send [] = []"
| "send_gate force_send (r # rs) =
     (let sync_mail = get_default (rec_fields r) ''sync_mail'' (PStr []);
          dossier_id = get_default (rec_fields r) ''dossier_id'' (PStr [])
      in if \<not> truthy dossier_id then send_gate force_send rs
         else if force_send then r # send_gate force_send rs
         else if sync_mail \<noteq> PStr ''success'' then r # send_gate force_send rs
         else send_gate force_send rs)"

record config =
  demarche_number :: pyval
  message_subject :: string
  message_body :: string
  instructeur_id :: string
  grist_doc_id :: string
  grist_table :: string
  cfg_filters :: "filter_config list"
  filter_logic :: string

text \<open>
  \<^verbatim>\<open>get_records_to_process\<close>, given what the data store answered: an error text or the
  records of the table.
\<close>

definition get_records_to_process ::
  "(int \<Rightarrow> int) \<Rightarrow> config \<Rightarrow> bool \<Rightarrow> string + grist_record list
   \<Rightarrow> py_error + grist_record list" where
  "get_records_to_process tz cfg force_send answer =
     (case answer of
        Inl err \<Rightarrow> Inr []
      | Inr records \<Rightarrow>
          (case (if cfg_filters cfg \<noteq> []
                 then apply_filters tz records (cfg_filters cfg) (filter_logic cfg)
                 else Inr records) of
             Inl e \<Rightarrow> Inl e
           | Inr selected \<Rightarrow> Inr (send_gate force_send selected)))"

section \<open>Template renderer\<close>

text \<open>
  \<^verbatim>\<open>format_message_with_dates\<close>: the fields are visited in the order of the dictionary
  and each replaces its placeholder in the text produced so far.
\<close>

fun format_message_with_dates ::
  "(int \<Rightarrow> int) \<Rightarrow> string \<Rightarrow> (string \<times> pyval) list \<Rightarrow> py_error + string" where
  "format_message_with_dates tz template [] = Inr template"
| "format_message_with_dates tz template ((field_name, field_value) # rest) =
     (if field_value \<noteq> PNone
      then (case format_date_french tz field_value of
              Inl e \<Rightarrow> Inl e
            | Inr formatted \<Rightarrow>
                format_message_with_dates tz
                  (replace template (''{'' @ field_name @ ''}'')
                     (if formatted = [] \<or> formatted = py_str field_value
                      then py_str field_value else formatted))
                  rest)
      else format_message_with_dates tz template rest)"

section \<open>Dispatch controller\<close>

text \<open>
  The two services are outside the script's control. A call to one of them is recorded in
  the world, and what the service answers is given by the environment. Both clients turn
  every failure of the transport into a dictionary with the key \<^verbatim>\<open>error\<close>.
\<close>

record send_call =
  sc_dossier_id :: string
  sc_instructeur_id :: string
  sc_subject :: string
  sc_body :: string

record update_call =
  uc_doc_id :: string
  uc_table :: string
  uc_record_id :: int
  uc_data :: "(string \<times> pyval) list"

text \<open>The dictionary that \<^verbatim>\<open>send_message_to_record\<close> returns, by the keys that are read.\<close>

record send_result =
  sr_success :: bool
  sr_dry_run :: bool
  sr_error :: "string option"

datatype update_answer = UpdNone | UpdError string | UpdOk

text \<open>
  What \<^verbatim>\<open>DSClient._make_request\<close> hands to \<^verbatim>\<open>send_message\<close>: an error dictionary, or
  the member \<^verbatim>\<open>data\<close> of the reply. That member is null, or an object whose member
  \<^verbatim>\<open>dossierEnvoyerMessage\<close> is absent, null, or an object with a list \<^verbatim>\<open>errors\<close> of
  messages, each of which may be null.
\<close>

datatype ds_payload = PayloadAbsent | PayloadNull | Payload "string option list"

datatype request_answer = RequestError string | DataNull | Data ds_payload

record env =
  local_tz :: "int \<Rightarrow> int"
  ds_make_request :: "send_call \<Rightarrow> request_answer"
  grist_update_record :: "update_call \<Rightarrow> update_answer"
  now_isoformat :: "nat \<Rightarrow> string"

text \<open>\<^verbatim>\<open>", ".join(messages)\<close>.\<close>

fun join_comma :: "string list \<Rightarrow> string" where
  "join_comma [] = []"
| "join_comma [m] = m"
| "join_comma (m # m' # ms) = m @ '', '' @ join_comma (m' # ms)"

definition sent_ok :: send_result where
  "sent_ok = \<lparr>sr_success = True, sr_dry_run = False, sr_error = None\<rparr>"

definition sent_error :: "string \<Rightarrow> send_result" where
  "sent_error m = \<lparr>sr_success = False, sr_dry_run = False, sr_error = Some m\<rparr>"

text \<open>
  \<^verbatim>\<open>DSClient.send_message\<close> after the request: the tests on the answer are outside any
  handler, so an answer without the expected shape raises.
\<close>

definition send_message :: "env \<Rightarrow> send_call \<Rightarrow> py_error + send_result" where
  "send_message en call =
     (case ds_make_request en call of
        RequestError m \<Rightarrow> Inr (sent_error m)
      | DataNull \<Rightarrow> Inl TypeError
      | Data PayloadAbsent \<Rightarrow> Inr sent_ok
      | Data PayloadNull \<Rightarrow> Inl AttributeError
      | Data (Payload errors) \<Rightarrow>
          if errors = [] then Inr sent_ok
          else if None \<in> set errors then Inl TypeError
          else Inr (sent_error (''Erreurs: '' @ join_comma (map the errors))))"

text \<open>
  The world: the calls made so far, and the fields that the data store holds for each
  record identifier.
\<close>

record world =
  sent :: "send_call list"
  updates :: "update_call list"
  store :: "int \<Rightarrow> (string \<times> pyval) list"

text \<open>Assignment to a key of a dictionary, and the update of a dictionary by another.\<close>

fun dict_set :: "(string \<times> pyval) list \<Rightarrow> string \<Rightarrow> pyval \<Rightarrow> (string \<times> pyval) list" where
  "dict_set [] k v = [(k, v)]"
| "dict_set ((k', v') # rest) k v =
     (if k' = k then (k, v) # rest else (k', v') # dict_set rest k v)"

fun dict_update :: "(string \<times> pyval) list \<Rightarrow> (string \<times> pyval) list \<Rightarrow> (string \<times> pyval) list" where
  "dict_update d [] = d"
| "dict_update d ((k, v) # rest) = dict_update (dict_set d k v) rest"

text \<open>
  Modelled from the spec: the data store behind \<^verbatim>\<open>update_record\<close>, which is not part of
  the script. It applies the partial fields to the record unless it reports an error.
\<close>

definition update_record :: "env \<Rightarrow> update_call \<Rightarrow> world \<Rightarrow> update_answer \<times> world" where
  "update_record en call w =
     (grist_update_record en call,
      w\<lparr>updates := updates w @ [call],
        store := (if (case grist_update_record en call of UpdError m \<Rightarrow> True | _ \<Rightarrow> False)
                  then store w
                  else (store w)(uc_record_id call :=
                          dict_update (store w (uc_record_id call)) (uc_data call)))\<rparr>)"

text \<open>The dictionary \<^verbatim>\<open>update_data\<close> built from the collaborator's answer.\<close>

definition update_data :: "send_result \<Rightarrow> string \<Rightarrow> (string \<times> pyval) list" where
  "update_data result now =
     (if sr_success result
      then [(''sync_mail'', PStr ''success''), (''sync_date'', PStr now),
            (''sync_error'', PStr [])]
      else [(''sync_mail'', PStr ''failure''), (''sync_date'', PStr now),
            (''sync_error'',
             PStr (take 500 (case sr_error result of
                               None \<Rightarrow> ''Erreur inconnue'' | Some m \<Rightarrow> m)))])"

definition send_message_to_record ::
  "env \<Rightarrow> config \<Rightarrow> bool \<Rightarrow> grist_record \<Rightarrow> world \<Rightarrow> (py_error + send_result) \<times> world" where
  "send_message_to_record en cfg dry_run record w =
     (let dossier_id = py_str (get_default (rec_fields record) ''dossier_id'' (PStr []))
      in if dossier_id = []
         then (Inr \<lparr>sr_success = False, sr_dry_run = False,
                    sr_error = Some ''dossier_id manquant''\<rparr>, w)
         else
           (case format_message_with_dates (local_tz en) (message_subject cfg)
                   (rec_fields record) of
              Inl e \<Rightarrow> (Inl e, w)
            | Inr subject \<Rightarrow>
                (case format_message_with_dates (local_tz en) (message_body cfg)
                        (rec_fields record) of
                   Inl e \<Rightarrow> (Inl e, w)
                 | Inr body \<Rightarrow>
                     if dry_run
                     then (Inr \<lparr>sr_success = True, sr_dry_run = True, sr_error = None\<rparr>, w)
                     else
                       let call = \<lparr>sc_dossier_id = dossier_id,
                                   sc_instructeur_id = instructeur_id cfg,
                                   sc_subject = subject, sc_body = body\<rparr>;
                           w1 = w\<lparr>sent := sent w @ [call]\<rparr>
                       in (case send_message en call of
                             Inl e \<Rightarrow> (Inl e, w1)
                           | Inr result \<Rightarrow>
                               (Inr result,
                                snd (update_record en
                                       \<lparr>uc_doc_id = grist_doc_id cfg,
                                        uc_table = grist_table cfg,
                                        uc_record_id = rec_id record,
                                        uc_data = update_data result
                                          (now_isoformat en (length (sent w)))\<rparr>
                                       w1))))))"

section \<open>Result aggregator\<close>

record batch_result =
  total_records :: nat
  success_count :: nat
  error_count :: nat
  already_sent_count :: nat
  details :: "(pyval \<times> string) list"

definition validate_config :: "config \<Rightarrow> bool" where
  "validate_config cfg =
     (truthy (demarche_number cfg) \<and> message_subject cfg \<noteq> [] \<and> message_body cfg \<noteq> []
      \<and> instructeur_id cfg \<noteq> [] \<and> grist_doc_id cfg \<noteq> [] \<and> grist_table cfg \<noteq> [])"

text \<open>
  The fields that hold a date, collected for the log at the start of each iteration:
  the name of the field and its French form.
\<close>

fun date_fields :: "(int \<Rightarrow> int) \<Rightarrow> (string \<times> pyval) list \<Rightarrow> py_error + (string \<times> string) list" where
  "date_fields tz [] = Inr []"
| "date_fields tz ((field_name, field_value) # rest) =
     (if \<not> truthy field_value then date_fields tz rest
      else
        (case parse_date_value tz field_value of
           Inl e \<Rightarrow> Inl e
         | Inr None \<Rightarrow> date_fields tz rest
         | Inr (Some d) \<Rightarrow>
             (case format_date_french tz field_value of
                Inl e \<Rightarrow> Inl e
              | Inr formatted_date \<Rightarrow>
                  (case date_fields tz rest of
                     Inl e \<Rightarrow> Inl e
                   | Inr found_dates \<Rightarrow> Inr ((field_name, formatted_date) # found_dates)))))"

text \<open>What one answer adds to the counts.\<close>

definition count_result :: "batch_result \<Rightarrow> pyval \<Rightarrow> send_result \<Rightarrow> batch_result" where
  "count_result results dossier_id result =
     (if sr_success result
      then results\<lparr>success_count := success_count results + 1\<rparr>
      else results\<lparr>error_count := error_count results + 1,
                   details := details results @
                     [(dossier_id,
                       case sr_error result of
                         None \<Rightarrow> ''Erreur inconnue'' | Some m \<Rightarrow> m)]\<rparr>)"

text \<open>The loop of \<^verbatim>\<open>send_batch\<close> over the selected records; it holds no handler.\<close>

fun dispatch_loop ::
  "env \<Rightarrow> config \<Rightarrow> bool \<Rightarrow> grist_record list \<Rightarrow> batch_result \<Rightarrow> world
   \<Rightarrow> (py_error + batch_result) \<times> world" where
  "dispatch_loop en cfg dry_run [] results w = (Inr results, w)"
| "dispatch_loop en cfg dry_run (record # rest) results w =
     (case date_fields (local_tz en) (rec_fields record) of
        Inl e \<Rightarrow> (Inl e, w)
      | Inr found_dates \<Rightarrow>
          (case send_message_to_record en cfg dry_run record w of
             (Inl e, w') \<Rightarrow> (Inl e, w')
           | (Inr result, w') \<Rightarrow>
               dispatch_loop en cfg dry_run rest
                 (count_result results
                    (get_default (rec_fields record) ''dossier_id'' (PStr ''N/A'')) result)
                 w'))"

text \<open>
  \<^verbatim>\<open>send_batch\<close>, given the answer of the data store to \<^verbatim>\<open>get_records\<close>. An invalid
  configuration ends the process. Writing the result file is not modelled.
\<close>

definition send_batch ::
  "env \<Rightarrow> config \<Rightarrow> bool \<Rightarrow> bool \<Rightarrow> string + grist_record list \<Rightarrow> world
   \<Rightarrow> (py_error + batch_result) \<times> world" where
  "send_batch en cfg dry_run force_send answer w =
     (if \<not> validate_config cfg then (Inl SystemExit, w)
      else
        (case get_records_to_process (local_tz en) cfg force_send answer of
           Inl e \<Rightarrow> (Inl e, w)
         | Inr records \<Rightarrow>
             if records = []
             then (Inr \<lparr>total_records = 0, success_count = 0, error_count = 0,
                        already_sent_count = 0, details = []\<rparr>, w)
             else dispatch_loop en cfg dry_run records
                    \<lparr>total_records = length records, success_count = 0, error_count = 0,
                     already_sent_count = 0, details = []\<rparr> w))"

section \<open>Notions of the specification\<close>

text \<open>A platform whose local time is UTC, for the concrete examples.\<close>

definition utc :: "int \<Rightarrow> int" where
  "utc t = 0"

text \<open>The operator names that the specification lists as recognized.\<close>

definition recognized_operators :: "string list" where
  "recognized_operators =
     [''date_before'', ''date_after'', ''date_on'', ''date_between'', ''empty'',
      ''not_empty'', ''equals'', ''not_equals'', ''contains'', ''not_contains'',
      ''starts_with'', ''ends_with'', ''greater_than'', ''less_than'', ''greater_equal'',
      ''less_equal'']"

text \<open>
  One side of a numeric comparison as the specification words it: the value as a number,
  and zero when it is absent or cannot be read as a number.
\<close>

definition number_or_zero :: "pyval \<Rightarrow> pyfloat" where
  "number_or_zero v =
     (case py_float (py_or v (PInt 0)) of Inr x \<Rightarrow> x | Inl e \<Rightarrow> Finite 0)"

text \<open>The two fields of a record that the gate reads, with their defaults.\<close>

definition dossier_of :: "grist_record \<Rightarrow> pyval" where
  "dossier_of r = get_default (rec_fields r) ''dossier_id'' (PStr [])"

definition sync_mail_of :: "grist_record \<Rightarrow> pyval" where
  "sync_mail_of r = get_default (rec_fields r) ''sync_mail'' (PStr [])"

text \<open>
  A record passes the filter stage: every filter evaluates true on it, or, under the logic
  \<^verbatim>\<open>'OR'\<close>, at least one does.
\<close>

definition passes_filters ::
  "(int \<Rightarrow> int) \<Rightarrow> filter_config list \<Rightarrow> string \<Rightarrow> grist_record \<Rightarrow> bool" where
  "passes_filters tz fcs logic r =
     (if logic = ''OR''
      then list_ex (\<lambda>fc. filter_result tz (rec_fields r) fc = Inr True) fcs
      else list_all (\<lambda>fc. filter_result tz (rec_fields r) fc = Inr True) fcs)"

text \<open>A concrete run, for the examples: configuration, services, clock and records.\<close>

definition demo_config :: config where
  "demo_config =
     \<lparr>demarche_number = PInt 1234, message_subject = ''Rappel'',
      message_body = ''Dossier {dossier_id}'', instructeur_id = ''SW5zdHJ1Y3RldXItMQ=='',
      grist_doc_id = ''doc'', grist_table = ''Suivi'', cfg_filters = [],
      filter_logic = ''AND''\<rparr>"

definition accepting_service :: "send_call \<Rightarrow> request_answer" where
  "accepting_service c = Data (Payload [])"

definition failing_service :: "send_call \<Rightarrow> request_answer" where
  "failing_service c = RequestError (replicate 600 CHR ''x'')"

definition null_service :: "send_call \<Rightarrow> request_answer" where
  "null_service c = Data PayloadNull"

definition accepting_store :: "update_call \<Rightarrow> update_answer" where
  "accepting_store c = UpdOk"

definition fixed_clock :: "nat \<Rightarrow> string" where
  "fixed_clock k = ''2024-01-01T00:00:00''"

definition demo_env :: "(send_call \<Rightarrow> request_answer) \<Rightarrow> env" where
  "demo_env service =
     \<lparr>local_tz = utc, ds_make_request = service, grist_update_record = accepting_store,
      now_isoformat = fixed_clock\<rparr>"

definition empty_store :: "int \<Rightarrow> (string \<times> pyval) list" where
  "empty_store i = []"

definition empty_world :: world where
  "empty_world = \<lparr>sent = [], updates = [], store = empty_store\<rparr>"

definition demo_record :: "int \<Rightarrow> grist_record" where
  "demo_record i = \<lparr>rec_id = i, rec_fields = [(''dossier_id'', PStr ''RG9zc2llci00Mg=='')]\<rparr>"

text \<open>A record with a text field that holds a number of thirty digits.\<close>

definition long_number_record :: grist_record where
  "long_number_record =
     \<lparr>rec_id = 7,
      rec_fields = [(''dossier_id'', PStr ''RG9zc2llci00Mg==''),
                    (''reference'', PStr ''100000000000000000000000000000'')]\<rparr>"

text \<open>
  The text of a date and a time of day in a format, every field at its full width: four
  digits for the year, two for every other field, a literal character as it is, and one
  blank for a blank.
\<close>

definition field_text :: "char \<Rightarrow> date \<Rightarrow> nat \<Rightarrow> nat \<Rightarrow> nat \<Rightarrow> string" where
  "field_text c d h mi s =
     (if c = CHR ''Y'' then zero_pad 4 (year d)
      else if c = CHR ''m'' then zero_pad 2 (month d)
      else if c = CHR ''d'' then zero_pad 2 (day d)
      else if c = CHR ''H'' then zero_pad 2 h
      else if c = CHR ''M'' then zero_pad 2 mi
      else if c = CHR ''S'' then zero_pad 2 s
      else [])"

fun item_text :: "fmt_item \<Rightarrow> date \<Rightarrow> nat \<Rightarrow> nat \<Rightarrow> nat \<Rightarrow> string" where
  "item_text (Directive c) d h mi s = field_text c d h mi s"
| "item_text (Literal c) d h mi s = [c]"
| "item_text Blanks d h mi s = '' ''"

definition format_date :: "string \<Rightarrow> date \<Rightarrow> nat \<Rightarrow> nat \<Rightarrow> nat \<Rightarrow> string" where
  "format_date fmt d h mi s = concat (map (\<lambda>it. item_text it d h mi s) (compile_format fmt))"

section \<open>Facts about the library model\<close>

subsection \<open>Timestamps beyond the range of the platform\<close>

text \<open>
  A rational of at least \<open>2 ^ 63\<close> rounds to a float of at least \<open>2 ^ 63\<close> or to
  infinity; so an integer of at least \<open>2 ^ 63 * 1000\<close> cannot be converted: the division
  by 1000 or the conversion of the quotient raises \<^verbatim>\<open>OverflowError\<close>.
\<close>

lemma pow_int_powi: "pow_int b e = of_nat b powi e"
  by (simp add: pow_int_def power_int_def inverse_eq_divide power_one_over)

lemma ilog_lower:
  assumes "0 < q"
  shows "pow_int 2 (ilog 2 q) \<le> q"
proof -
  define p where "p = fst (quotient_of q)"
  define d where "d = snd (quotient_of q)"
  define lp where "lp = floorlog 2 (nat p)"
  define ld where "ld = floorlog 2 (nat d)"
  have d: "0 < d"
    by (simp add: d_def quotient_of_denom_pos')
  have q: "q = of_int p / of_int d"
    by (simp add: p_def d_def quotient_of_div)
  with assms d have p: "0 < p"
    by (simp add: zero_less_divide_iff)
  have lo: "2 ^ (lp - 1) \<le> nat p" and hi: "nat d < 2 ^ ld"
    using floorlog_bounds [of "nat p" 2] floorlog_bounds [of "nat d" 2] p d
    by (simp_all add: lp_def ld_def)
  have lp: "1 \<le> lp"
    using p by (simp add: lp_def floorlog_def)
  have "pow_int 2 (int lp - int ld - 1) \<le> q"
  proof -
    have "int lp - int ld - 1 = int (lp - 1) - int ld"
      using lp by simp
    then have "pow_int 2 (int lp - int ld - 1) = (2 :: rat) powi (int (lp - 1) - int ld)"
      by (simp only: pow_int_powi of_nat_numeral)
    also have "\<dots> = (2 :: rat) powi int (lp - 1) / 2 powi int ld"
      by (rule power_int_diff) simp
    also have "\<dots> = (2 :: rat) ^ (lp - 1) / 2 ^ ld"
      by (simp only: power_int_of_nat)
    finally have "pow_int 2 (int lp - int ld - 1) = (2 :: rat) ^ (lp - 1) / 2 ^ ld" .
    also have "\<dots> \<le> of_int p / 2 ^ ld"
    proof -
      have "(2 :: rat) ^ (lp - 1) \<le> of_nat (nat p)"
        using lo by (metis of_nat_le_iff of_nat_numeral of_nat_power)
      then show ?thesis
        using p by (simp add: divide_right_mono)
    qed
    also have "\<dots> \<le> of_int p / of_int d"
    proof -
      have "of_nat (nat d) \<le> (2 :: rat) ^ ld"
        using hi by (metis less_imp_le of_nat_le_iff of_nat_numeral of_nat_power)
      then have "of_int d \<le> (2 :: rat) ^ ld"
        using d by simp
      then show ?thesis
        using p d by (simp add: frac_le)
    qed
    finally show ?thesis
      using q by simp
  qed
  then show ?thesis
    by (simp add: ilog_def Let_def p_def d_def lp_def ld_def)
qed

lemma round_half_even_ge: "\<lfloor>q\<rfloor> \<le> round_half_even q"
  by (simp add: round_half_even_def Let_def)

lemma float_round_big:
  assumes "2 ^ 63 \<le> q"
  shows "float_round q = PosInf \<or> (\<exists>v. float_round q = Finite v \<and> 2 ^ 63 \<le> v)"
proof -
  have q0: "0 < q"
    using assms by (rule less_le_trans [rotated]) simp
  define u where "u = max (ilog 2 q - 52) (- 1074)"
  define m where "m = round_half_even (q / pow_int 2 u)"
  have upos: "0 < pow_int 2 u"
    by (simp add: pow_int_powi)
  have "2 ^ 63 \<le> of_int m * pow_int 2 u"
  proof (cases "u \<le> 63")
    case True
    have "pow_int 2 63 = pow_int 2 (63 - u) * pow_int 2 u"
      by (simp add: pow_int_powi flip: power_int_add)
    then have "pow_int 2 (63 - u) * pow_int 2 u \<le> q"
      using assms by (simp add: pow_int_powi)
    then have "pow_int 2 (63 - u) \<le> q / pow_int 2 u"
      using upos by (simp add: pos_le_divide_eq)
    moreover have "pow_int 2 (63 - u) = of_int (2 ^ nat (63 - u))"
      using True by (simp add: pow_int_def)
    ultimately have "2 ^ nat (63 - u) \<le> \<lfloor>q / pow_int 2 u\<rfloor>"
      by (simp add: le_floor_iff)
    then have "2 ^ nat (63 - u) \<le> m"
      using round_half_even_ge [of "q / pow_int 2 u"] unfolding m_def by linarith
    then have "of_int (2 ^ nat (63 - u)) \<le> (of_int m :: rat)"
      by (simp only: of_int_le_iff)
    then have "pow_int 2 (63 - u) * pow_int 2 u \<le> of_int m * pow_int 2 u"
      using upos \<open>pow_int 2 (63 - u) = of_int (2 ^ nat (63 - u))\<close>
      by (simp add: mult_right_mono)
    with \<open>pow_int 2 63 = pow_int 2 (63 - u) * pow_int 2 u\<close> show ?thesis
      by (simp add: pow_int_powi)
  next
    case False
    then have u: "u = ilog 2 q - 52"
      by (simp add: u_def)
    have "(2 :: rat) powi u \<le> 2 powi (ilog 2 q)"
      unfolding u by (intro power_int_increasing) simp_all
    then have "pow_int 2 u \<le> pow_int 2 (ilog 2 q)"
      by (simp add: pow_int_powi)
    also have "\<dots> \<le> q"
      using q0 by (rule ilog_lower)
    finally have "1 \<le> q / pow_int 2 u"
      using upos by (simp add: pos_le_divide_eq)
    then have "1 \<le> \<lfloor>q / pow_int 2 u\<rfloor>"
      by (simp add: le_floor_iff)
    then have "1 \<le> m"
      using round_half_even_ge [of "q / pow_int 2 u"] unfolding m_def by linarith
    then have m1: "(1 :: rat) \<le> of_int m"
      by simp
    have "pow_int 2 u = 1 * pow_int 2 u"
      by simp
    also have "\<dots> \<le> of_int m * pow_int 2 u"
      using m1 upos by (intro mult_right_mono) simp_all
    finally have mu: "pow_int 2 u \<le> of_int m * pow_int 2 u" .
    have "(2 :: rat) powi 63 \<le> 2 powi u"
      using False by (intro power_int_increasing) simp_all
    then have "(2 :: rat) ^ 63 \<le> pow_int 2 u"
      by (simp add: pow_int_powi)
    with mu show ?thesis
      by linarith
  qed
  then show ?thesis
    using q0 by (simp add: float_round_def Let_def u_def m_def)
qed

lemma float_seconds_big: "2 ^ 63 \<le> v \<Longrightarrow> 2 ^ 63 \<le> float_seconds v"
proof -
  assume v: "2 ^ 63 \<le> v"
  then have v0: "0 \<le> v"
    by (rule order_trans [rotated]) simp
  have "(2 :: rat) ^ 63 = of_int (2 ^ 63)" by simp
  with v have f: "2 ^ 63 \<le> \<lfloor>v\<rfloor>"
    by (simp only: le_floor_iff)
  have "0 \<le> (v - of_int \<lfloor>v\<rfloor>) * 1000000"
    by simp
  then have "0 \<le> \<lfloor>(v - of_int \<lfloor>v\<rfloor>) * 1000000\<rfloor>"
    by (simp only: zero_le_floor)
  then have "0 \<le> round_half_even ((v - of_int \<lfloor>v\<rfloor>) * 1000000)"
    using round_half_even_ge [of "(v - of_int \<lfloor>v\<rfloor>) * 1000000"] by linarith
  with f v0 show ?thesis
    by (simp add: float_seconds_def Let_def)
qed

lemma timestamp_overflow:
  assumes "2 ^ 63 * 1000 \<le> n"
  shows "timestamp_date_int tz n = Inl OverflowError"
proof -
  have n: "10000000000 < n"
    using assms by simp
  have "(2 :: rat) ^ 63 * 1000 \<le> of_int n"
  proof -
    have "(of_int (2 ^ 63 * 1000) :: rat) \<le> of_int n"
      using assms by (simp only: of_int_le_iff)
    then show ?thesis by simp
  qed
  then have "2 ^ 63 \<le> (of_int n :: rat) / 1000"
    by simp
  then consider "float_round (of_int n / 1000) = PosInf"
    | v where "float_round (of_int n / 1000) = Finite v" "2 ^ 63 \<le> v"
    using float_round_big by blast
  then show ?thesis
  proof cases
    case 1
    with n show ?thesis
      by (simp add: timestamp_date_int_def int_div_1000_def finite_or_overflow_def)
  next
    case 2
    from 2(2) have "2 ^ 63 \<le> float_seconds v"
      by (rule float_seconds_big)
    with 2 n show ?thesis
      by (simp add: timestamp_date_int_def int_div_1000_def finite_or_overflow_def
          fromtimestamp_secs_def)
  qed
qed





subsection \<open>Numerals and the textual steps\<close>
















subsection \<open>Evaluation of the examples\<close>

lemmas text_defs = strip_def strip_with_def is_space_def isdigit_def is_digit_like_def is_digit_def
  digit_val_def
  py_int_of_digits_def nat_of_digits_def

lemmas strp_defs = strptime_date_def directive.simps alt1_def alt2_def alt_blank_def year_digits_def char_in_def
  found_def valid_date_def days_in_month_def is_leap_def lower_char_def

lemma id_formats: "try_formats date_formats ''RG9zc2llci00Mg=='' = Inr None"
  by (simp add: date_formats_def strp_defs text_defs)

lemma id_search: "search_iso ''RG9zc2llci00Mg=='' = None"
  by (simp add: iso_at_def text_defs)

lemma id_parse: "parse_date_value tz (PStr ''RG9zc2llci00Mg=='') = Inr None"
  by (simp add: parse_date_value_def parse_date_text_def parse_date_formats_def passes_def
      id_formats id_search text_defs Let_def del: search_iso.simps try_formats.simps)

lemma id_french: "format_date_french tz (PStr ''RG9zc2llci00Mg=='') = Inr ''RG9zc2llci00Mg==''"
  by (simp add: format_date_french_def id_parse)

lemma demo_subject:
  "format_message_with_dates tz ''Rappel'' [(''dossier_id'', PStr ''RG9zc2llci00Mg=='')]
   = Inr ''Rappel''"
  by (simp add: id_french replace_def startswith_def)

lemma demo_body:
  "format_message_with_dates tz ''Dossier {dossier_id}''
     [(''dossier_id'', PStr ''RG9zc2llci00Mg=='')]
   = Inr ''Dossier RG9zc2llci00Mg==''"
  by (simp add: id_french replace_def startswith_def)













section \<open>Filter evaluator: unknown operators and numeric operators\<close>

lemma test_filter_unknown:
  "op \<notin> set recognized_operators \<Longrightarrow> test_filter f op v = Inr True"
  by (simp add: test_filter_def recognized_operators_def Let_def)

lemma check_date_filter_unknown:
  "op \<notin> set recognized_operators \<Longrightarrow>
     (check_date_filter tz f op v = Inr True) = (\<not> truthy v)"
  by (auto simp: check_date_filter_def date_comparison_def recognized_operators_def
           split: sum.splits option.splits)

text \<open>
  C1, as amended. An operator name that is not recognized and does not start with
  \<^verbatim>\<open>date_\<close> evaluates true whatever the field value and the operand are. A name that is
  not recognized and starts with \<^verbatim>\<open>date_\<close> goes to the date filter, where it evaluates
  true exactly when the operand is empty.
\<close>

theorem C1_unknown_operator:
  assumes "op \<notin> set recognized_operators"
  shows "(\<not> startswith op ''date_'' \<longrightarrow>
            filter_result tz fs \<lparr>fc_column = c, fc_operator = op, fc_value = v\<rparr> = Inr True)
       \<and> (startswith op ''date_'' \<longrightarrow>
            (filter_result tz fs \<lparr>fc_column = c, fc_operator = op, fc_value = v\<rparr> = Inr True)
            = (\<not> truthy v))"
  using assms
  by (simp add: filter_result_def test_filter_unknown check_date_filter_unknown)

theorem C1_unknown_operator_witness:
  "''matches'' \<notin> set recognized_operators
   \<and> filter_result utc [] \<lparr>fc_column = ''due'', fc_operator = ''matches'',
                            fc_value = PStr ''x''\<rparr> = Inr True
   \<and> ''date_foo'' \<notin> set recognized_operators
   \<and> filter_result utc [] \<lparr>fc_column = ''due'', fc_operator = ''date_foo'',
                            fc_value = PStr ''x''\<rparr> \<noteq> Inr True"
  using C1_unknown_operator [of "''matches''" utc "[]" "''due''" "PStr ''x''"]
        C1_unknown_operator [of "''date_foo''" utc "[]" "''due''" "PStr ''x''"]
  by (simp add: recognized_operators_def startswith_def)

text \<open>
  C1 as stated fails: the name \<^verbatim>\<open>date_foo\<close> is not recognized, and with the operand
  \<^verbatim>\<open>x\<close> the filter evaluates false on a record without the field.
\<close>

theorem C1_counterexample:
  "''date_foo'' \<notin> set recognized_operators
   \<and> filter_result utc [] \<lparr>fc_column = ''due'', fc_operator = ''date_foo'',
                            fc_value = PStr ''x''\<rparr> = Inr False"
  by (simp add: recognized_operators_def filter_result_def startswith_def get_field_def
      get_default_def check_date_filter_def parse_date_value_def)

lemma float_round_0: "float_round 0 = Finite 0"
  by (simp add: float_round_def)

lemma float_of_string_abc: "float_of_string ''abc'' = Inl ValueError"
  by (simp add: float_of_string_def strip_with_def is_float_space_def lower_def lower_char_def
      parse_float_abs_def parse_mantissa_def take_digitpart_def is_digit_def)

lemma float_of_string_0: "float_of_string ''0'' = Inr (Finite 0)"
  by (simp add: float_of_string_def strip_with_def is_float_space_def lower_def lower_char_def
      parse_float_abs_def parse_mantissa_def take_digitpart_def is_digit_def parse_exponent_def
      nat_of_digits_def digit_val_def float_round_def)

lemma num_compare_cases:
  assumes "truthy v"
  shows "(py_float (py_or f (PInt 0)) = Inr a \<and> py_float v = Inr b \<longrightarrow>
            num_compare cmp f v = Inr (cmp a b))
       \<and> (\<not> truthy f \<and> py_float v = Inr b \<longrightarrow>
            num_compare cmp f v = Inr (cmp (Finite 0) b))
       \<and> (py_float (py_or f (PInt 0)) = Inl e \<and> caught e \<longrightarrow>
            num_compare cmp f v = Inr False)
       \<and> (py_float (py_or f (PInt 0)) = Inr a \<and> py_float v = Inl e \<and> caught e \<longrightarrow>
            num_compare cmp f v = Inr False)"
  using assms
  by (simp add: num_compare_def py_or_def float_of_int_def finite_or_overflow_def float_round_0)

text \<open>
  C3, as amended. With a non-empty operand, each of the four numeric operators converts
  the field value, or zero when the field value is absent (or otherwise falsy), and the
  operand with \<^verbatim>\<open>float\<close>. When both conversions succeed the result is the comparison of
  the two numbers. When a conversion fails with a \<^verbatim>\<open>ValueError\<close> or a \<^verbatim>\<open>TypeError\<close>,
  as it does on a text that is no numeral, the filter evaluates false.
\<close>

theorem C3_numeric_operators:
  assumes "truthy v"
  shows "(py_float (py_or f (PInt 0)) = Inr a \<and> py_float v = Inr b \<longrightarrow>
            test_filter f ''greater_than'' v = Inr (float_less b a)
          \<and> test_filter f ''less_than'' v = Inr (float_less a b)
          \<and> test_filter f ''greater_equal'' v = Inr (float_le b a)
          \<and> test_filter f ''less_equal'' v = Inr (float_le a b))
       \<and> (\<not> truthy f \<and> py_float v = Inr b \<longrightarrow>
            test_filter f ''greater_than'' v = Inr (float_less b (Finite 0))
          \<and> test_filter f ''less_than'' v = Inr (float_less (Finite 0) b)
          \<and> test_filter f ''greater_equal'' v = Inr (float_le b (Finite 0))
          \<and> test_filter f ''less_equal'' v = Inr (float_le (Finite 0) b))
       \<and> ((\<exists>e. caught e \<and> (py_float (py_or f (PInt 0)) = Inl e
                            \<or> (py_float (py_or f (PInt 0)) = Inr a \<and> py_float v = Inl e))) \<longrightarrow>
            test_filter f ''greater_than'' v = Inr False
          \<and> test_filter f ''less_than'' v = Inr False
          \<and> test_filter f ''greater_equal'' v = Inr False
          \<and> test_filter f ''less_equal'' v = Inr False)"
  using num_compare_cases [OF assms, of f a b] assms
  by (auto simp: test_filter_def Let_def)

theorem C3_numeric_operators_witness:
  "truthy (PStr ''0'')
   \<and> test_filter (PFloat (Finite 120)) ''greater_than'' (PStr ''0'') = Inr True
   \<and> test_filter PNone ''greater_equal'' (PStr ''0'') = Inr True
   \<and> test_filter (PStr ''abc'') ''less_equal'' (PStr ''0'') = Inr False"
  using C3_numeric_operators [of "PStr ''0''" "PFloat (Finite 120)" "Finite 120" "Finite 0"]
        C3_numeric_operators [of "PStr ''0''" "PNone" "Finite 0" "Finite 0"]
        C3_numeric_operators [of "PStr ''0''" "PStr ''abc''" "Finite 0" "Finite 0"]
  by (simp add: py_or_def float_of_string_0 float_of_string_abc caught_def)

text \<open>
  C3 as stated fails: the field value \<^verbatim>\<open>abc\<close> is no numeral; with zero in its place
  \<^verbatim>\<open>less_equal\<close> against the operand \<^verbatim>\<open>0\<close> would hold, but the filter evaluates false.
\<close>

theorem C3_counterexample:
  "truthy (PStr ''0'')
   \<and> test_filter (PStr ''abc'') ''less_equal'' (PStr ''0'') = Inr False
   \<and> float_le (number_or_zero (PStr ''abc'')) (number_or_zero (PStr ''0''))"
  by (simp add: test_filter_def num_compare_def py_or_def caught_def number_or_zero_def
      float_of_string_abc float_of_string_0)

section \<open>Record selector: the gate and the composition of filters\<close>

lemma send_gate_filter:
  "send_gate force rs =
     filter (\<lambda>r. truthy (dossier_of r) \<and> (force \<or> sync_mail_of r \<noteq> PStr ''success'')) rs"
  by (induction rs) (auto simp: Let_def dossier_of_def sync_mail_of_def)

text \<open>
  C4. The gate drops every record whose \<^verbatim>\<open>dossier_id\<close> is absent or empty, with and
  without \<^verbatim>\<open>force_send\<close>; a record with a \<^verbatim>\<open>dossier_id\<close> whose \<^verbatim>\<open>sync_mail\<close> is
  \<^verbatim>\<open>success\<close> is kept exactly when \<^verbatim>\<open>force_send\<close> is set. The gate only selects among
  the records it is given, and it is the last stage of \<^verbatim>\<open>get_records_to_process\<close>.
\<close>

theorem C4_selection_gate:
  "(\<forall>r \<in> set rs.
      (map_of (rec_fields r) ''dossier_id'' = None
       \<or> map_of (rec_fields r) ''dossier_id'' = Some (PStr [])
       \<longrightarrow> r \<notin> set (send_gate force rs))
      \<and> (truthy (dossier_of r) \<and> sync_mail_of r = PStr ''success''
         \<longrightarrow> (r \<in> set (send_gate force rs)) = force))
   \<and> set (send_gate force rs) \<subseteq> set rs
   \<and> (\<forall>r \<in> set (send_gate force rs). truthy (dossier_of r))
   \<and> (cfg_filters cfg = [] \<longrightarrow>
        get_records_to_process tz cfg force (Inr rs) = Inr (send_gate force rs))"
  by (auto simp: send_gate_filter dossier_of_def get_default_def get_records_to_process_def)

theorem C4_selection_gate_witness:
  "send_gate False
     [\<lparr>rec_id = 1, rec_fields = [(''sync_mail'', PStr ''success'')]\<rparr>,
      \<lparr>rec_id = 2, rec_fields = [(''dossier_id'', PStr ''42''), (''sync_mail'', PStr ''success'')]\<rparr>]
     = []
   \<and> send_gate True
     [\<lparr>rec_id = 1, rec_fields = [(''sync_mail'', PStr ''success'')]\<rparr>,
      \<lparr>rec_id = 2, rec_fields = [(''dossier_id'', PStr ''42''), (''sync_mail'', PStr ''success'')]\<rparr>]
     = [\<lparr>rec_id = 2, rec_fields = [(''dossier_id'', PStr ''42''), (''sync_mail'', PStr ''success'')]\<rparr>]"
  using C4_selection_gate [of
      "[\<lparr>rec_id = 1, rec_fields = [(''sync_mail'', PStr ''success'')]\<rparr>,
        \<lparr>rec_id = 2, rec_fields = [(''dossier_id'', PStr ''42''), (''sync_mail'', PStr ''success'')]\<rparr>]"
      False]
  by (simp add: get_default_def)

lemma filter_results_total:
  "\<forall>fc \<in> set fcs. \<exists>b. filter_result tz fs fc = Inr b \<Longrightarrow>
     filter_results tz fs fcs = Inr (map (\<lambda>fc. filter_result tz fs fc = Inr True) fcs)"
  by (induction fcs) auto

lemma filter_results_Inr:
  "filter_results tz fs fcs = Inr bs \<Longrightarrow>
     bs = map (\<lambda>fc. filter_result tz fs fc = Inr True) fcs"
  by (induction fcs arbitrary: bs) (auto split: sum.splits)

lemma combine_map:
  "combine logic (map P fcs) = (if logic = ''OR'' then list_ex P fcs else list_all P fcs)"
  by (simp add: combine_def list_ex_iff list_all_iff)

lemma filter_loop_total:
  "\<forall>r \<in> set rs. \<forall>fc \<in> set fcs. \<exists>b. filter_result tz (rec_fields r) fc = Inr b \<Longrightarrow>
     filter_loop tz rs fcs logic = Inr (filter (passes_filters tz fcs logic) rs)"
proof (induction rs)
  case Nil
  then show ?case by simp
next
  case (Cons r rs)
  then have "filter_results tz (rec_fields r) fcs
             = Inr (map (\<lambda>fc. filter_result tz (rec_fields r) fc = Inr True) fcs)"
    by (intro filter_results_total) simp
  with Cons show ?case
    by (simp add: combine_map passes_filters_def)
qed

lemma filter_loop_Inr:
  "filter_loop tz rs fcs logic = Inr kept \<Longrightarrow>
     kept = filter (passes_filters tz fcs logic) rs"
proof (induction rs arbitrary: kept)
  case Nil
  then show ?case by simp
next
  case (Cons r rs)
  then show ?case
    by (auto split: sum.splits dest!: filter_results_Inr simp: combine_map passes_filters_def)
qed

text \<open>
  C5. Without filters every record is selected, in the same order. With filters, when
  the evaluation of every filter on every record returns, \<^verbatim>\<open>apply_filters\<close> returns
  exactly the records that pass: under \<^verbatim>\<open>'AND'\<close> those on which every filter evaluates
  true, under \<^verbatim>\<open>'OR'\<close> those on which some filter does; and whenever it returns, this is
  what it returns. The results true and false combine to false under \<^verbatim>\<open>'AND'\<close> and to
  true under \<^verbatim>\<open>'OR'\<close>.
\<close>

theorem C5_filter_composition:
  "apply_filters tz rs [] logic = Inr rs
   \<and> (fcs \<noteq> [] \<and> (\<forall>r \<in> set rs. \<forall>fc \<in> set fcs. \<exists>b. filter_result tz (rec_fields r) fc = Inr b)
        \<longrightarrow> apply_filters tz rs fcs logic = Inr (filter (passes_filters tz fcs logic) rs))
   \<and> (fcs \<noteq> [] \<and> apply_filters tz rs fcs logic = Inr kept
        \<longrightarrow> kept = filter (passes_filters tz fcs logic) rs)
   \<and> (passes_filters tz fcs ''AND'' r
        = (\<forall>fc \<in> set fcs. filter_result tz (rec_fields r) fc = Inr True))
   \<and> (passes_filters tz fcs ''OR'' r
        = (\<exists>fc \<in> set fcs. filter_result tz (rec_fields r) fc = Inr True))
   \<and> \<not> combine ''AND'' [True, False] \<and> combine ''OR'' [True, False]"
proof (intro conjI impI)
  show "apply_filters tz rs [] logic = Inr rs"
    by (simp add: apply_filters_def)
  show "apply_filters tz rs fcs logic = Inr (filter (passes_filters tz fcs logic) rs)"
    if "fcs \<noteq> [] \<and> (\<forall>r \<in> set rs. \<forall>fc \<in> set fcs. \<exists>b. filter_result tz (rec_fields r) fc = Inr b)"
    using that by (simp add: apply_filters_def filter_loop_total)
  show "kept = filter (passes_filters tz fcs logic) rs"
    if "fcs \<noteq> [] \<and> apply_filters tz rs fcs logic = Inr kept"
    using that by (auto simp: apply_filters_def dest: filter_loop_Inr)
  show "passes_filters tz fcs ''AND'' r
        = (\<forall>fc \<in> set fcs. filter_result tz (rec_fields r) fc = Inr True)"
    by (simp add: passes_filters_def list_all_iff)
  show "passes_filters tz fcs ''OR'' r
        = (\<exists>fc \<in> set fcs. filter_result tz (rec_fields r) fc = Inr True)"
    by (simp add: passes_filters_def list_ex_iff)
  show "\<not> combine ''AND'' [True, False]"
    by (simp add: combine_def)
  show "combine ''OR'' [True, False]"
    by (simp add: combine_def)
qed

lemma filter_result_equals_x:
  "filter_result utc [(''a'', PStr ''x'')]
     \<lparr>fc_column = ''a'', fc_operator = ''equals'', fc_value = PStr ''x''\<rparr> = Inr True"
  by (simp add: filter_result_def startswith_def get_field_def get_default_def test_filter_def
      lower_def lower_char_def)

lemma filter_result_equals_y:
  "filter_result utc [(''a'', PStr ''x'')]
     \<lparr>fc_column = ''a'', fc_operator = ''equals'', fc_value = PStr ''y''\<rparr> = Inr False"
  by (simp add: filter_result_def startswith_def get_field_def get_default_def test_filter_def
      lower_def lower_char_def)

theorem C5_filter_composition_witness:
  "apply_filters utc [\<lparr>rec_id = 1, rec_fields = [(''a'', PStr ''x'')]\<rparr>]
     [\<lparr>fc_column = ''a'', fc_operator = ''equals'', fc_value = PStr ''x''\<rparr>,
      \<lparr>fc_column = ''a'', fc_operator = ''equals'', fc_value = PStr ''y''\<rparr>] ''AND''
   = Inr []
   \<and> apply_filters utc [\<lparr>rec_id = 1, rec_fields = [(''a'', PStr ''x'')]\<rparr>]
     [\<lparr>fc_column = ''a'', fc_operator = ''equals'', fc_value = PStr ''x''\<rparr>,
      \<lparr>fc_column = ''a'', fc_operator = ''equals'', fc_value = PStr ''y''\<rparr>] ''OR''
   = Inr [\<lparr>rec_id = 1, rec_fields = [(''a'', PStr ''x'')]\<rparr>]"
  using C5_filter_composition [of utc "[\<lparr>rec_id = 1, rec_fields = [(''a'', PStr ''x'')]\<rparr>]"
          "''AND''"
          "[\<lparr>fc_column = ''a'', fc_operator = ''equals'', fc_value = PStr ''x''\<rparr>,
            \<lparr>fc_column = ''a'', fc_operator = ''equals'', fc_value = PStr ''y''\<rparr>]"]
        C5_filter_composition [of utc "[\<lparr>rec_id = 1, rec_fields = [(''a'', PStr ''x'')]\<rparr>]"
          "''OR''"
          "[\<lparr>fc_column = ''a'', fc_operator = ''equals'', fc_value = PStr ''x''\<rparr>,
            \<lparr>fc_column = ''a'', fc_operator = ''equals'', fc_value = PStr ''y''\<rparr>]"]
  by (auto simp: filter_result_equals_x filter_result_equals_y passes_filters_def)

section \<open>Date normalizer: values that count as absent\<close>

lemma strip_eq_Nil: "strip s = [] \<longleftrightarrow> list_all is_space s"
proof -
  have "(\<forall>x \<in> set (dropWhile is_space s). is_space x) \<longleftrightarrow> dropWhile is_space s = []"
    by (metis hd_dropWhile list.set_sel(1) empty_iff list.set(1))
  then show ?thesis
    by (simp add: strip_def strip_with_def list_all_iff)
qed

lemma falsy_normalizer:
  "\<not> truthy v \<Longrightarrow> parse_date_value tz v = Inr None \<and> format_date_french tz v = Inr []"
  by (simp add: parse_date_value_def format_date_french_def)

lemma blank_normalizer:
  assumes "s \<noteq> []" "strip s = []"
  shows "parse_date_value tz (PStr s) = Inr None \<and> format_date_french tz (PStr s) = Inr s"
proof -
  have p: "parse_date_value tz (PStr s) = Inr None"
    using assms by (simp add: parse_date_value_def parse_date_text_def)
  have "\<not> is_space CHR ''-''" by (simp add: is_space_def)
  with assms(2) have "CHR ''-'' \<notin> set s"
    by (auto simp: strip_eq_Nil list_all_iff)
  with p assms(1) show ?thesis
    by (simp add: format_date_french_def)
qed

lemma falsy_values:
  "\<not> truthy PNone \<and> \<not> truthy (PStr []) \<and> \<not> truthy (PInt 0)
   \<and> \<not> truthy (PFloat (Finite 0)) \<and> \<not> truthy (PBool False)"
  by simp

text \<open>
  C10 at a text of one blank. On the falsy values proper, that is \<^verbatim>\<open>None\<close>, the empty
  text, the numbers 0 and 0.0 and \<^verbatim>\<open>False\<close>, the normalizer returns \<^verbatim>\<open>None\<close> and the
  French formatter the empty text (\<open>falsy_normalizer\<close>). A text of blanks only is
  truthy. The normalizer strips it and returns \<^verbatim>\<open>None\<close>, as claimed; the French
  formatter does not strip, finds nothing to parse and ends in \<^verbatim>\<open>return str(value)\<close>: it
  returns the blank itself, where the claim, and the docstring of the formatter (a date
  in French form, or the empty string on failure), promise the empty text.
\<close>

theorem C10_blank_text:
  "strip '' '' = [] \<and> truthy (PStr '' '')
   \<and> parse_date_value utc (PStr '' '') = Inr None
   \<and> format_date_french utc (PStr '' '') = Inr '' ''"
  using blank_normalizer [of "'' ''" utc]
  by (simp add: strip_def strip_with_def is_space_def)

section \<open>Dispatch controller\<close>

lemma str_of_nat_nonempty: "str_of_nat n \<noteq> []"
  by (subst str_of_nat.simps) simp

lemma float_repr_pos_nonempty: "float_repr_pos q \<noteq> []"
  by (simp add: float_repr_pos_def Let_def)

lemma truthy_py_str: "truthy v \<Longrightarrow> py_str v \<noteq> []"
proof (cases v)
  case (PFloat x)
  then show ?thesis
    by (cases x) (simp_all add: float_repr_pos_nonempty)
next
  case (PDateTime d h mi s)
  then show ?thesis by simp
qed (simp_all add: str_of_int_def str_of_nat_nonempty)

lemma send_message_cases:
  "send_message en call = Inr result \<Longrightarrow> result = sent_ok \<or> (\<exists>m. result = sent_error m)"
  by (auto simp: send_message_def split: request_answer.splits ds_payload.splits if_splits)

lemma map_of_dict_set:
  "map_of (dict_set d k v) k' = (if k' = k then Some v else map_of d k')"
  by (induction d) auto

lemma get_default_update_data:
  "get_default (dict_update d (update_data result now)) ''sync_mail'' dflt
     = PStr (if sr_success result then ''success'' else ''failure'')"
  "get_default (dict_update d (update_data result now)) ''sync_error'' dflt
     = PStr (if sr_success result then []
             else take 500 (case sr_error result of None \<Rightarrow> ''Erreur inconnue'' | Some m \<Rightarrow> m))"
  by (simp_all add: update_data_def get_default_def map_of_dict_set)

lemma dry_run_frame:
  "snd (send_message_to_record en cfg True r w) = w"
  by (simp add: send_message_to_record_def Let_def split: sum.splits)

lemma dry_run_result:
  assumes "truthy (dossier_of r)"
  shows "fst (send_message_to_record en cfg True r w)
         = (case format_message_with_dates (local_tz en) (message_subject cfg) (rec_fields r) of
              Inl e \<Rightarrow> Inl e
            | Inr subject \<Rightarrow>
                (case format_message_with_dates (local_tz en) (message_body cfg) (rec_fields r) of
                   Inl e \<Rightarrow> Inl e
                 | Inr body \<Rightarrow> Inr \<lparr>sr_success = True, sr_dry_run = True, sr_error = None\<rparr>))"
  using truthy_py_str [OF assms]
  by (simp add: send_message_to_record_def Let_def dossier_of_def split: sum.splits)

text \<open>
  C7. For a selected record outside dry-run mode, once the subject and the body are
  rendered and the messaging client has answered, the answer is the result of the
  dispatch and one update is written back for the record. The client answers with
  success or with an error text. For a success the update holds the status
  \<^verbatim>\<open>success\<close> and an empty error text; for an error it holds the status \<^verbatim>\<open>failure\<close>
  and the first 500 characters of the error text, which are the whole text when it is
  no longer than that. Unless the data store reports an error, these values are what it
  then holds for the record.
\<close>

theorem C7_outcome_written_back:
  assumes "truthy (dossier_of r)"
    and "format_message_with_dates (local_tz en) (message_subject cfg) (rec_fields r) = Inr subject"
    and "format_message_with_dates (local_tz en) (message_body cfg) (rec_fields r) = Inr body"
    and "send_message en \<lparr>sc_dossier_id = py_str (dossier_of r),
                           sc_instructeur_id = instructeur_id cfg,
                           sc_subject = subject, sc_body = body\<rparr> = Inr result"
    and "w' = snd (send_message_to_record en cfg False r w)"
  shows "fst (send_message_to_record en cfg False r w) = Inr result
       \<and> (result = sent_ok \<or> (\<exists>m. result = sent_error m))
       \<and> updates w' = updates w @
            [\<lparr>uc_doc_id = grist_doc_id cfg, uc_table = grist_table cfg, uc_record_id = rec_id r,
              uc_data = update_data result (now_isoformat en (length (sent w)))\<rparr>]
       \<and> update_data sent_ok now
           = [(''sync_mail'', PStr ''success''), (''sync_date'', PStr now),
              (''sync_error'', PStr [])]
       \<and> update_data (sent_error m) now
           = [(''sync_mail'', PStr ''failure''), (''sync_date'', PStr now),
              (''sync_error'', PStr (take 500 m))]
       \<and> length (take 500 m) \<le> 500
       \<and> (500 < length m \<longrightarrow> length (take 500 m) = 500)
       \<and> ((\<forall>t. grist_update_record en (last (updates w')) \<noteq> UpdError t) \<longrightarrow>
            get_field (store w' (rec_id r)) ''sync_mail''
              = PStr (if sr_success result then ''success'' else ''failure'')
          \<and> get_field (store w' (rec_id r)) ''sync_error''
              = PStr (if sr_success result then []
                      else take 500 (case sr_error result of
                                       None \<Rightarrow> ''Erreur inconnue'' | Some m \<Rightarrow> m)))"
proof -
  let ?call = "\<lparr>uc_doc_id = grist_doc_id cfg, uc_table = grist_table cfg, uc_record_id = rec_id r,
                uc_data = update_data result (now_isoformat en (length (sent w)))\<rparr>"
  have id: "py_str (get_default (rec_fields r) ''dossier_id'' (PStr [])) \<noteq> []"
    using truthy_py_str [OF assms(1)] by (simp add: dossier_of_def)
  have run: "send_message_to_record en cfg False r w
             = (Inr result, snd (update_record en ?call (w\<lparr>sent := sent w @
                  [\<lparr>sc_dossier_id = py_str (dossier_of r), sc_instructeur_id = instructeur_id cfg,
                    sc_subject = subject, sc_body = body\<rparr>]\<rparr>)))"
    using id assms(2-4) by (simp add: send_message_to_record_def Let_def dossier_of_def)
  have w': "w' = snd (update_record en ?call (w\<lparr>sent := sent w @
                  [\<lparr>sc_dossier_id = py_str (dossier_of r), sc_instructeur_id = instructeur_id cfg,
                    sc_subject = subject, sc_body = body\<rparr>]\<rparr>))"
    using assms(5) run by simp
  have upd: "updates w' = updates w @ [?call]"
    by (simp add: w' update_record_def)
  have st: "get_field (store w' (rec_id r)) ''sync_mail''
              = PStr (if sr_success result then ''success'' else ''failure'')
          \<and> get_field (store w' (rec_id r)) ''sync_error''
              = PStr (if sr_success result then []
                      else take 500 (case sr_error result of
                                       None \<Rightarrow> ''Erreur inconnue'' | Some m \<Rightarrow> m))"
    if "\<forall>t. grist_update_record en (last (updates w')) \<noteq> UpdError t"
  proof -
    from that have "\<forall>t. grist_update_record en ?call \<noteq> UpdError t"
      by (simp add: upd)
    then have "store w' (rec_id r)
        = dict_update (store w (rec_id r))
            (update_data result (now_isoformat en (length (sent w))))"
      by (auto simp: w' update_record_def split: update_answer.splits)
    then show ?thesis
      by (simp only: get_field_def get_default_update_data)
  qed
  show ?thesis
    using run send_message_cases [OF assms(4)] upd st
    by (simp add: update_data_def sent_ok_def sent_error_def)
qed


lemma count_result_sum:
  "success_count (count_result results d result) + error_count (count_result results d result)
     = success_count results + error_count results + 1
   \<and> total_records (count_result results d result) = total_records results"
  by (simp add: count_result_def)

lemma dispatch_loop_counts:
  "fst (dispatch_loop en cfg dry rs results w) = Inr final \<Longrightarrow>
     success_count final + error_count final
       = success_count results + error_count results + length rs
     \<and> total_records final = total_records results"
proof (induction rs arbitrary: results w)
  case Nil
  then show ?case by simp
next
  case (Cons r rs)
  from Cons.prems obtain ds result w' where
    "date_fields (local_tz en) (rec_fields r) = Inr ds"
    "send_message_to_record en cfg dry r w = (Inr result, w')"
    "fst (dispatch_loop en cfg dry rs
            (count_result results (get_default (rec_fields r) ''dossier_id'' (PStr ''N/A'')) result)
            w') = Inr final"
    by (auto split: sum.splits prod.splits)
  with Cons.IH [OF this(3)] show ?case
    by (simp add: count_result_sum)
qed

text \<open>
  C2, as amended. A failure that the messaging client reports as an error result is
  counted as an error, with its text in the detail list, and the loop goes on with the
  next record; when the loop returns, every record has been counted once, as a success
  or as an error. An exception raised while one record is processed, in the scan for
  dates, in rendering or in the messaging client, is not caught by the loop: the loop
  ends with it, and the remaining records are not processed.
\<close>

theorem C2_loop_isolation:
  "(date_fields (local_tz en) (rec_fields r) = Inr ds
      \<and> send_message_to_record en cfg dry r w = (Inr result, w')
    \<longrightarrow> dispatch_loop en cfg dry (r # rest) results w
          = dispatch_loop en cfg dry rest
              (count_result results (get_default (rec_fields r) ''dossier_id'' (PStr ''N/A''))
                 result) w'
        \<and> (\<not> sr_success result \<longrightarrow>
             error_count (count_result results d result) = error_count results + 1
           \<and> details (count_result results d result)
               = details results @
                   [(d, case sr_error result of None \<Rightarrow> ''Erreur inconnue'' | Some m \<Rightarrow> m)]))
   \<and> (date_fields (local_tz en) (rec_fields r) = Inl e
        \<longrightarrow> dispatch_loop en cfg dry (r # rest) results w = (Inl e, w))
   \<and> (date_fields (local_tz en) (rec_fields r) = Inr ds
        \<and> send_message_to_record en cfg dry r w = (Inl e, w')
        \<longrightarrow> dispatch_loop en cfg dry (r # rest) results w = (Inl e, w'))
   \<and> (fst (dispatch_loop en cfg dry rs results w) = Inr final
        \<longrightarrow> success_count final + error_count final
              = success_count results + error_count results + length rs
          \<and> total_records final = total_records results)"
  using dispatch_loop_counts [of en cfg dry rs results w final]
  by (simp add: count_result_def)

lemma demo_date_fields:
  "date_fields tz [(''dossier_id'', PStr ''RG9zc2llci00Mg=='')] = Inr []"
  by (simp add: id_parse)

lemma demo_truthy: "truthy (dossier_of (demo_record i))"
  by (simp add: dossier_of_def demo_record_def get_default_def)

lemma null_service_send:
  "send_message_to_record (demo_env null_service) demo_config False (demo_record i) w
   = (Inl AttributeError,
      w\<lparr>sent := sent w @
          [\<lparr>sc_dossier_id = ''RG9zc2llci00Mg=='', sc_instructeur_id = ''SW5zdHJ1Y3RldXItMQ=='',
            sc_subject = ''Rappel'', sc_body = ''Dossier RG9zc2llci00Mg==''\<rparr>]\<rparr>)"
  by (simp add: send_message_to_record_def demo_record_def demo_config_def demo_env_def
      get_default_def id_french replace_def startswith_def send_message_def null_service_def
      Let_def)

text \<open>
  C2 as stated fails: the remote service answers the first of two records with a null
  payload, the messaging client raises \<^verbatim>\<open>AttributeError\<close>, and the run ends with that
  exception after one call; the second record is never dispatched and nothing is counted.
\<close>

theorem C2_counterexample:
  "send_batch (demo_env null_service) demo_config False False
     (Inr [demo_record 1, demo_record 2]) empty_world
   = (Inl AttributeError,
      empty_world\<lparr>sent :=
        [\<lparr>sc_dossier_id = ''RG9zc2llci00Mg=='', sc_instructeur_id = ''SW5zdHJ1Y3RldXItMQ=='',
          sc_subject = ''Rappel'', sc_body = ''Dossier RG9zc2llci00Mg==''\<rparr>]\<rparr>)"
proof -
  have cfg: "validate_config demo_config" "cfg_filters demo_config = []"
    by (simp_all add: validate_config_def demo_config_def)
  have gate: "send_gate False [demo_record 1, demo_record 2] = [demo_record 1, demo_record 2]"
    by (simp add: demo_record_def get_default_def)
  have tz: "local_tz (demo_env null_service) = utc"
    by (simp add: demo_env_def)
  have df: "date_fields utc (rec_fields (demo_record 1)) = Inr []"
    by (simp add: demo_record_def id_parse)
  have recs: "get_records_to_process utc demo_config False (Inr [demo_record 1, demo_record 2])
              = Inr [demo_record 1, demo_record 2]"
    by (simp add: get_records_to_process_def cfg gate del: send_gate.simps)
  have loop: "dispatch_loop (demo_env null_service) demo_config False
                [demo_record 1, demo_record 2] results empty_world
              = (Inl AttributeError,
                 empty_world\<lparr>sent :=
                   [\<lparr>sc_dossier_id = ''RG9zc2llci00Mg=='',
                     sc_instructeur_id = ''SW5zdHJ1Y3RldXItMQ=='',
                     sc_subject = ''Rappel'', sc_body = ''Dossier RG9zc2llci00Mg==''\<rparr>]\<rparr>)"
    for results
    by (simp add: tz df null_service_send empty_world_def)
  show ?thesis
    by (simp add: send_batch_def cfg tz recs loop del: dispatch_loop.simps)
qed

lemma failing_service_send:
  "fst (send_message_to_record (demo_env failing_service) demo_config False (demo_record i) w)
   = Inr (sent_error (replicate 600 CHR ''x''))"
  by (simp add: send_message_to_record_def demo_record_def demo_config_def demo_env_def
      get_default_def id_french replace_def startswith_def send_message_def failing_service_def
      Let_def)

theorem C7_outcome_written_back_witness:
  "fst (send_message_to_record (demo_env failing_service) demo_config False (demo_record 1)
          empty_world)
   = Inr (sent_error (replicate 600 CHR ''x''))
   \<and> updates (snd (send_message_to_record (demo_env failing_service) demo_config False
                      (demo_record 1) empty_world))
     = [\<lparr>uc_doc_id = ''doc'', uc_table = ''Suivi'', uc_record_id = 1,
         uc_data = [(''sync_mail'', PStr ''failure''),
                    (''sync_date'', PStr ''2024-01-01T00:00:00''),
                    (''sync_error'', PStr (replicate 500 CHR ''x''))]\<rparr>]
   \<and> get_field (store (snd (send_message_to_record (demo_env failing_service) demo_config False
                                (demo_record 1) empty_world)) 1) ''sync_mail''
     = PStr ''failure''"
proof -
  have subject: "format_message_with_dates (local_tz (demo_env failing_service))
                   (message_subject demo_config) (rec_fields (demo_record 1)) = Inr ''Rappel''"
    by (simp add: demo_env_def demo_config_def demo_record_def id_french replace_def
        startswith_def)
  have body: "format_message_with_dates (local_tz (demo_env failing_service))
                (message_body demo_config) (rec_fields (demo_record 1))
              = Inr ''Dossier RG9zc2llci00Mg==''"
    by (simp add: demo_env_def demo_config_def demo_record_def id_french replace_def
        startswith_def)
  have answer: "send_message (demo_env failing_service)
                  \<lparr>sc_dossier_id = py_str (dossier_of (demo_record 1)),
                   sc_instructeur_id = instructeur_id demo_config,
                   sc_subject = ''Rappel'', sc_body = ''Dossier RG9zc2llci00Mg==''\<rparr>
                = Inr (sent_error (replicate 600 CHR ''x''))"
    by (simp add: send_message_def demo_env_def failing_service_def)
  from C7_outcome_written_back [OF demo_truthy subject body answer refl,
         of empty_world "''2024-01-01T00:00:00''" "replicate 600 CHR ''x''"]
  show ?thesis
    by (simp add: demo_env_def demo_config_def demo_record_def empty_world_def
        accepting_store_def fixed_clock_def sent_error_def update_data_def)
qed

theorem C2_loop_isolation_witness:
  "fst (dispatch_loop (demo_env failing_service) demo_config False
          [demo_record 1, demo_record 2]
          \<lparr>total_records = 2, success_count = 0, error_count = 0, already_sent_count = 0,
           details = []\<rparr> empty_world)
   = Inr \<lparr>total_records = 2, success_count = 0, error_count = 2, already_sent_count = 0,
          details = [(PStr ''RG9zc2llci00Mg=='', replicate 600 CHR ''x''),
                     (PStr ''RG9zc2llci00Mg=='', replicate 600 CHR ''x'')]\<rparr>
   \<and> fst (dispatch_loop (demo_env null_service) demo_config False
          [demo_record 1, demo_record 2]
          \<lparr>total_records = 2, success_count = 0, error_count = 0, already_sent_count = 0,
           details = []\<rparr> empty_world)
     = Inl AttributeError"
proof -
  let ?zero = "\<lparr>total_records = 2, success_count = 0, error_count = 0, already_sent_count = 0,
                details = []\<rparr>"
  have df: "date_fields (local_tz (demo_env service)) (rec_fields (demo_record i)) = Inr []"
    for service i
    by (simp add: demo_record_def id_parse)
  have step: "send_message_to_record (demo_env failing_service) demo_config False
                (demo_record 1) empty_world
              = (Inr (sent_error (replicate 600 CHR ''x'')),
                 snd (send_message_to_record (demo_env failing_service) demo_config False
                        (demo_record 1) empty_world))"
    using failing_service_send [of 1 empty_world] by (simp add: prod_eq_iff)
  have first: "dispatch_loop (demo_env failing_service) demo_config False
                 [demo_record 1, demo_record 2] ?zero empty_world
               = dispatch_loop (demo_env failing_service) demo_config False [demo_record 2]
                   (count_result ?zero
                      (get_default (rec_fields (demo_record 1)) ''dossier_id'' (PStr ''N/A''))
                      (sent_error (replicate 600 CHR ''x'')))
                   (snd (send_message_to_record (demo_env failing_service) demo_config False
                           (demo_record 1) empty_world))"
    using C2_loop_isolation [of "demo_env failing_service" "demo_record 1" "[]" demo_config
            False empty_world "sent_error (replicate 600 CHR ''x'')"
            "snd (send_message_to_record (demo_env failing_service) demo_config False
                    (demo_record 1) empty_world)"
            "[demo_record 2]" ?zero]
          df step
    by simp
  have second: "fst (dispatch_loop (demo_env failing_service) demo_config False [demo_record 2]
                       results w)
                = Inr (count_result results
                         (get_default (rec_fields (demo_record 2)) ''dossier_id'' (PStr ''N/A''))
                         (sent_error (replicate 600 CHR ''x'')))"
    for results w
    using failing_service_send [of 2 w] by (simp add: df prod.case_eq_if)
  have raise: "dispatch_loop (demo_env null_service) demo_config False
                 [demo_record 1, demo_record 2] ?zero empty_world
               = (Inl AttributeError, snd (send_message_to_record (demo_env null_service)
                    demo_config False (demo_record 1) empty_world))"
    using C2_loop_isolation [of "demo_env null_service" "demo_record 1" "[]" demo_config
            False empty_world _ "snd (send_message_to_record (demo_env null_service)
                    demo_config False (demo_record 1) empty_world)"
            "[demo_record 2]" ?zero _ AttributeError]
          df null_service_send [of 1 empty_world]
    by simp
  show ?thesis
    by (simp only: first second raise)
       (simp add: count_result_def sent_error_def demo_record_def get_default_def)
qed

lemma long_number_parse:
  "parse_date_value tz (PStr ''100000000000000000000000000000'') = Inl OverflowError"
  by (simp add: parse_date_value_def parse_date_text_def text_defs timestamp_overflow passes_def
      Let_def)

lemma long_number_french:
  "format_date_french tz (PStr ''100000000000000000000000000000'') = Inl OverflowError"
  by (simp add: format_date_french_def long_number_parse)

text \<open>
  C6 at a failing input. In dry-run mode the dispatch of a record never calls a service
  and never changes the world (\<open>dry_run_frame\<close>), and it yields the dry-run success
  whenever rendering returns (\<open>dry_run_result\<close>). But rendering normalizes every
  field as a date, and the normalizer lets the \<^verbatim>\<open>OverflowError\<close> of a timestamp beyond
  the platform's range escape: the dispatch of a record with a thirty-digit number in a
  text field raises instead of yielding the dry-run success.
\<close>

theorem C6_dry_run_overflow:
  "truthy (dossier_of long_number_record)
   \<and> send_message_to_record (demo_env accepting_service) demo_config True long_number_record
       empty_world
     = (Inl OverflowError, empty_world)"
  by (simp add: dossier_of_def long_number_record_def get_default_def send_message_to_record_def
      demo_config_def demo_env_def id_french long_number_french replace_def startswith_def
      Let_def)

section \<open>Date normalizer: timestamps\<close>




end
